theory Spec2Isabelle
  imports Complex_Main "HOL-Library.Signed_Division" "HOL-Library.Word"
begin

section \<open>JavaScript strings and numbers used by the detection service\<close>

text \<open>
  The detection service (\<^verbatim>\<open>DetectionService\<close>, TypeScript) works on strings taken from a
  transaction trace. Strings are modelled as lists of 8-bit characters; the operations below
  follow the ECMAScript definitions of the methods the service calls on them.
\<close>

definition toLowerChar :: "char \<Rightarrow> char" where
  "toLowerChar c =
     (let n = (of_char c :: int) in
      if (65 \<le> n \<and> n \<le> 90) \<or> (192 \<le> n \<and> n \<le> 222 \<and> n \<noteq> 215)
      then char_of (n + 32) else c)"

definition toLowerCase :: "string \<Rightarrow> string" where
  "toLowerCase s = map toLowerChar s"

text \<open>\<^verbatim>\<open>s.startsWith(p)\<close>, \<^verbatim>\<open>s.includes(p)\<close>, \<^verbatim>\<open>s.substring(0, n)\<close>.\<close>

definition startsWith :: "string \<Rightarrow> string \<Rightarrow> bool" where
  "startsWith s p = (take (length p) s = p)"

fun includes_str :: "string \<Rightarrow> string \<Rightarrow> bool" where
  "includes_str [] p = (p = [])"
| "includes_str (c # cs) p = (startsWith (c # cs) p \<or> includes_str cs p)"

definition substring0 :: "string \<Rightarrow> nat \<Rightarrow> string" where
  "substring0 s n = take n s"

text \<open>
  \<^verbatim>\<open>s.replace('0x', '')\<close> with a string pattern removes the first occurrence of the
  pattern, wherever it stands.
\<close>

fun replace_0x :: "string \<Rightarrow> string" where
  "replace_0x [] = []"
| "replace_0x (c # cs) =
     (if startsWith (c # cs) ''0x'' then drop 2 (c # cs) else c # replace_0x cs)"

section \<open>Address similarity (spoofing helper)\<close>

text \<open>
  \<^verbatim>\<open>calculateAddressSimilarity\<close> lower-cases both addresses, removes \<^verbatim>\<open>0x\<close>, and counts the
  indices \<open>i\<close> below the length of the first address with \<^verbatim>\<open>a1[i] === a2[i]\<close>; beyond the end
  of the second address \<^verbatim>\<open>a2[i]\<close> is \<^verbatim>\<open>undefined\<close> and never equal. The result is
  \<^verbatim>\<open>matches / a1.length\<close>, which is \<^verbatim>\<open>NaN\<close> (here \<open>None\<close>) when the first address is empty.
  The quotient is kept as an exact rational: for strings of any length a JavaScript engine
  can hold, the comparisons of the rounded quotient with \<^verbatim>\<open>0.7\<close> and \<^verbatim>\<open>1.0\<close> agree with the
  exact ones.
\<close>

definition count_matches :: "string \<Rightarrow> string \<Rightarrow> nat" where
  "count_matches a1 a2 =
     fold (\<lambda>i matches. if i < length a2 \<and> a1 ! i = a2 ! i then matches + 1 else matches)
          [0..<length a1] 0"

definition calculateAddressSimilarity :: "string \<Rightarrow> string \<Rightarrow> rat option" where
  "calculateAddressSimilarity address1 address2 =
     (let a1 = replace_0x (toLowerCase address1);
          a2 = replace_0x (toLowerCase address2);
          matches = count_matches a1 a2
      in if length a1 = 0 then None
         else Some (of_nat matches / of_nat (length a1)))"

definition isAddressSpoofing :: "string \<Rightarrow> string \<Rightarrow> bool" where
  "isAddressSpoofing address1 address2 =
     (if address1 = [] \<or> address2 = [] then False
      else (case calculateAddressSimilarity address1 address2 of
              None \<Rightarrow> False
            | Some similarity \<Rightarrow> similarity > 7 / 10 \<and> similarity < 1))"

section \<open>Numbers\<close>

text \<open>
  \<^verbatim>\<open>parseInt(string, radix)\<close>: leading white space is dropped, then an optional sign, then
  (for radix 16 or no radix) an optional \<^verbatim>\<open>0x\<close>/\<^verbatim>\<open>0X\<close>; the longest prefix of digits of the
  radix is read, and the result is \<^verbatim>\<open>NaN\<close> (here \<open>None\<close>) when that prefix is empty.
  The value is kept as an exact integer. A JavaScript number is a double, so a digit string
  above \<open>2^53\<close> is rounded there; the service only compares the result with constants
  far below that bound, and rounding is monotone, so the comparisons agree.
\<close>

definition isWhiteSpace :: "char \<Rightarrow> bool" where
  "isWhiteSpace c = ((of_char c :: int) \<in> {9, 10, 11, 12, 13, 32, 160})"

definition digitValue :: "char \<Rightarrow> int" where
  "digitValue c =
     (let n = (of_char c :: int) in
      if 48 \<le> n \<and> n \<le> 57 then n - 48
      else if 97 \<le> n \<and> n \<le> 122 then n - 87
      else if 65 \<le> n \<and> n \<le> 90 then n - 55
      else 36)"

definition digitsValue :: "int \<Rightarrow> string \<Rightarrow> int" where
  "digitsValue r z = foldl (\<lambda>acc c. acc * r + digitValue c) 0 z"

definition parseInt :: "string \<Rightarrow> int option \<Rightarrow> int option" where
  "parseInt str radix =
     (let s0 = dropWhile isWhiteSpace str;
          sign = (if startsWith s0 ''-'' then (- 1 :: int) else 1);
          s1 = (if startsWith s0 ''+'' \<or> startsWith s0 ''-'' then drop 1 s0 else s0);
          strip = ((radix = None \<or> radix = Some 16)
                   \<and> (startsWith s1 ''0x'' \<or> startsWith s1 ''0X''));
          r = (if strip then 16 else (case radix of None \<Rightarrow> 10 | Some r' \<Rightarrow> r'));
          s2 = (if strip then drop 2 s1 else s1);
          z = takeWhile (\<lambda>c. digitValue c < r) s2
      in if z = [] then None else Some (sign * digitsValue r z))"

text \<open>\<^verbatim>\<open>a || b\<close> on numbers: \<^verbatim>\<open>NaN\<close> and \<open>0\<close> are falsy.\<close>

definition num_or :: "int option \<Rightarrow> int option \<Rightarrow> int option" where
  "num_or a b = (case a of None \<Rightarrow> b | Some n \<Rightarrow> if n = 0 then b else Some n)"

text \<open>Comparisons with \<^verbatim>\<open>NaN\<close> are false.\<close>

definition num_gt :: "int option \<Rightarrow> int \<Rightarrow> bool" where
  "num_gt a k = (case a of None \<Rightarrow> False | Some n \<Rightarrow> n > k)"

definition num_lt :: "int option \<Rightarrow> int \<Rightarrow> bool" where
  "num_lt a k = (case a of None \<Rightarrow> False | Some n \<Rightarrow> n < k)"

text \<open>Decimal rendering of an integer, as \<^verbatim>\<open>toString\<close> and template strings give it.\<close>

function digits_string :: "int \<Rightarrow> string" where
  "digits_string n =
     (if n < 10 then [char_of (48 + n)]
      else digits_string (n div 10) @ [char_of (48 + n mod 10)])"
  by pat_completeness auto
termination
  by (relation "measure nat") auto

definition nat_to_string :: "nat \<Rightarrow> string" where
  "nat_to_string n = digits_string (int n)"

definition int_to_string :: "int \<Rightarrow> string" where
  "int_to_string i = (if i < 0 then ''-'' @ digits_string (- i) else digits_string i)"

subsection \<open>Errors and big numbers\<close>

text \<open>
  The service raises no exception of its own; what can be raised comes from the calls it
  makes. \<open>InvalidBigNumberString\<close> is the argument error of \<^verbatim>\<open>ethers.BigNumber.from\<close>,
  \<open>TypeError\<close> the error of reading a property of \<^verbatim>\<open>undefined\<close>.
\<close>

datatype error = InvalidBigNumberString string | TypeError string

definition ebind :: "error + 'a \<Rightarrow> ('a \<Rightarrow> error + 'b) \<Rightarrow> error + 'b" where
  "ebind m f = (case m of Inl e \<Rightarrow> Inl e | Inr v \<Rightarrow> f v)"

text \<open>
  \<^verbatim>\<open>ethers.BigNumber.from(s)\<close> (ethers v5, a library outside the repository) on a string:
  an optional minus sign followed either by \<^verbatim>\<open>0x\<close> and at least one hexadecimal digit, or by
  at least one decimal digit; any other string raises. Big numbers are unbounded integers;
  \<^verbatim>\<open>div\<close> truncates towards zero.
\<close>

definition isDecDigit :: "char \<Rightarrow> bool" where
  "isDecDigit c = (digitValue c < 10)"

definition isHexDigit :: "char \<Rightarrow> bool" where
  "isHexDigit c = (digitValue c < 16)"

definition BigNumber_from :: "string \<Rightarrow> error + int" where
  "BigNumber_from v =
     (let neg = startsWith v ''-'';
          body = (if neg then drop 1 v else v);
          sign = (if neg then (- 1 :: int) else 1)
      in if startsWith body ''0x'' \<and> drop 2 body \<noteq> [] \<and> list_all isHexDigit (drop 2 body)
         then Inr (sign * digitsValue 16 (drop 2 body))
         else if body \<noteq> [] \<and> list_all isDecDigit body
         then Inr (sign * digitsValue 10 body)
         else Inl (InvalidBigNumberString v))"

definition bn_div :: "int \<Rightarrow> int \<Rightarrow> int" where
  "bn_div a b = a sdiv b"

text \<open>\<^verbatim>\<open>ethers.utils.parseEther('100')\<close> and \<^verbatim>\<open>parseEther('1000')\<close>.\<close>

definition parseEther_100 :: int where
  "parseEther_100 = 100 * 10 ^ 18"

definition parseEther_1000 :: int where
  "parseEther_1000 = 1000 * 10 ^ 18"

text \<open>
  Loops and array methods whose callback can raise: the first exception ends the loop.
  \<^verbatim>\<open>some\<close> stops at the first element whose callback returns true.
\<close>

fun some_err :: "('a \<Rightarrow> error + bool) \<Rightarrow> 'a list \<Rightarrow> error + bool" where
  "some_err p [] = Inr False"
| "some_err p (x # xs) =
     (case p x of Inl e \<Rightarrow> Inl e | Inr b \<Rightarrow> if b then Inr True else some_err p xs)"

fun filter_err :: "('a \<Rightarrow> error + bool) \<Rightarrow> 'a list \<Rightarrow> error + 'a list" where
  "filter_err p [] = Inr []"
| "filter_err p (x # xs) =
     (case p x of Inl e \<Rightarrow> Inl e
      | Inr b \<Rightarrow> (case filter_err p xs of Inl e \<Rightarrow> Inl e
                 | Inr ys \<Rightarrow> Inr (if b then x # ys else ys)))"

fun fold_err :: "('a \<Rightarrow> 's \<Rightarrow> error + 's) \<Rightarrow> 'a list \<Rightarrow> 's \<Rightarrow> error + 's" where
  "fold_err f [] s = Inr s"
| "fold_err f (x # xs) s = (case f x s of Inl e \<Rightarrow> Inl e | Inr s' \<Rightarrow> fold_err f xs s')"

text \<open>
  \<^verbatim>\<open>v && BigNumber.from(v).gt(k)\<close> on an optional string: absent and empty strings are
  falsy, and only a truthy string is parsed.
\<close>

definition truthy_str :: "string option \<Rightarrow> bool" where
  "truthy_str v = (case v of None \<Rightarrow> False | Some s \<Rightarrow> s \<noteq> [])"

definition value_gt :: "string option \<Rightarrow> int \<Rightarrow> error + bool" where
  "value_gt v k =
     (case v of None \<Rightarrow> Inr False
      | Some s \<Rightarrow> if s = [] then Inr False
                  else ebind (BigNumber_from s) (\<lambda>n. Inr (n > k)))"

text \<open>\<^verbatim>\<open>BigNumber.from(v || '0')\<close>.\<close>

definition value_or_zero :: "string option \<Rightarrow> error + int" where
  "value_or_zero v = BigNumber_from (if truthy_str v then the v else ''0'')"

section \<open>Objects used as dictionaries\<close>

text \<open>
  A JavaScript object used as a dictionary is an association list of its own properties in
  enumeration order, which is the order of \<^verbatim>\<open>Object.keys\<close>, \<^verbatim>\<open>Object.values\<close> and \<^verbatim>\<open>for..in\<close>:
  array-index keys (canonical decimal strings below \<open>2^32 - 1\<close>) first, in ascending
  numeric order, then the other keys in the order they were created. \<open>obj_get\<close> looks a
  name up among the own properties. The objects that the service creates itself and
  indexes by an address (the call graph, the call counts) are looked up with the members
  inherited from \<^verbatim>\<open>Object.prototype\<close> where the service does so; the snapshots \<^verbatim>\<open>pre\<close> and
  \<^verbatim>\<open>post\<close> of a trace are read by their own properties.
\<close>

type_synonym 'a js_object = "(string \<times> 'a) list"

definition isArrayIndex :: "string \<Rightarrow> bool" where
  "isArrayIndex k =
     (k \<noteq> [] \<and> list_all isDecDigit k \<and> (k = ''0'' \<or> \<not> startsWith k ''0'')
      \<and> digitsValue 10 k < 4294967295)"

definition obj_get :: "'a js_object \<Rightarrow> string \<Rightarrow> 'a option" where
  "obj_get obj k = map_of obj k"

definition obj_has :: "'a js_object \<Rightarrow> string \<Rightarrow> bool" where
  "obj_has obj k = (k \<in> set (map fst obj))"

definition before_index :: "string \<Rightarrow> string \<times> 'a \<Rightarrow> bool" where
  "before_index k p = (isArrayIndex (fst p) \<and> digitsValue 10 (fst p) < digitsValue 10 k)"

definition obj_set :: "'a js_object \<Rightarrow> string \<Rightarrow> 'a \<Rightarrow> 'a js_object" where
  "obj_set obj k v =
     (if obj_has obj k then map (\<lambda>p. if fst p = k then (k, v) else p) obj
      else if isArrayIndex k
      then takeWhile (before_index k) obj @ [(k, v)] @ dropWhile (before_index k) obj
      else obj @ [(k, v)])"

definition obj_keys :: "'a js_object \<Rightarrow> string list" where
  "obj_keys obj = map fst obj"

definition obj_values :: "'a js_object \<Rightarrow> 'a list" where
  "obj_values obj = map snd obj"

text \<open>
  An object created by \<^verbatim>\<open>{}\<close> inherits the members of \<^verbatim>\<open>Object.prototype\<close>: under one of
  the names below that is no own key, \<^verbatim>\<open>obj[k]\<close> gives the inherited member (a function, or
  the prototype itself for \<^verbatim>\<open>__proto__\<close>), which is truthy.
\<close>

definition inherited_name :: "string \<Rightarrow> bool" where
  "inherited_name k \<longleftrightarrow>
     k \<in> set [''constructor'', ''__defineGetter__'', ''__defineSetter__'', ''hasOwnProperty'',
              ''__lookupGetter__'', ''__lookupSetter__'', ''isPrototypeOf'',
              ''propertyIsEnumerable'', ''toString'', ''valueOf'', ''__proto__'',
              ''toLocaleString'']"

text \<open>\<^verbatim>\<open>a.indexOf(v)\<close>, \<open>-1\<close> when absent.\<close>

fun indexOf :: "'a list \<Rightarrow> 'a \<Rightarrow> int" where
  "indexOf [] v = - 1"
| "indexOf (x # xs) v =
     (if x = v then 0 else (let r = indexOf xs v in if r < 0 then - 1 else r + 1))"

section \<open>Data model\<close>

text \<open>
  A sub-call of the trace. \<^verbatim>\<open>from\<close> and \<^verbatim>\<open>to\<close> are required strings; the other fields are
  optional (\<open>None\<close> is \<^verbatim>\<open>undefined\<close>).
\<close>

datatype Call = Call
  (call_from: string)
  (call_to: string)
  (call_input: "string option")
  (call_output: "string option")
  (call_value: "string option")
  (call_gasUsed: "string option")
  (call_calls: "Call list option")

record Log =
  log_topics :: "string list"
  log_address :: string

text \<open>
  \<^verbatim>\<open>pre\<close> and \<^verbatim>\<open>post\<close> are declared \<^verbatim>\<open>Record<string, any>\<close>. The model gives them the shape
  the callers use: address \<open>\<mapsto>\<close> account object, whose properties are strings
  (\<^verbatim>\<open>balance\<close>), numbers (\<^verbatim>\<open>nonce\<close>) or an object from slot to string (\<^verbatim>\<open>storage\<close>).
\<close>

datatype field_value = FString string | FNumber int | FObject "string js_object"

type_synonym account_state = "field_value js_object"

type_synonym world_state = "account_state js_object"

record TransactionTrace =
  trace_from :: string
  trace_to :: string
  trace_input :: "string option"
  trace_output :: "string option"
  trace_value :: "string option"
  trace_gas :: "string option"
  trace_gasUsed :: "string option"
  trace_transactionHash :: "string option"
  trace_logs :: "Log list option"
  trace_calls :: "Call list option"
  trace_pre :: "world_state option"
  trace_post :: "world_state option"

text \<open>
  \<^verbatim>\<open>additionalData\<close> is declared \<^verbatim>\<open>any\<close>. The model lists the keys the service reads, each
  with the type the callers give it.
\<close>

record AdditionalData =
  ad_detectorName :: "string option"
  ad_testName :: "string option"
  ad_senderType :: "string option"
  ad_operationType :: "string option"
  ad_contractsVerified :: "bool option"
  ad_signaturesRequired :: "int option"
  ad_signaturesProvided :: "int option"
  ad_validatorsRequired :: "int option"
  ad_validatorsConfirmed :: "int option"
  ad_sourceChainId :: "int option"
  ad_destinationChainId :: "int option"
  ad_previouslyExecuted :: "bool option"
  ad_messageTx :: "string option"
  ad_originalChainId :: "int option"
  ad_currentChain :: "int option"
  ad_originalMessage :: "string option"
  ad_alteredMessage :: "string option"
  ad_sourcePrice :: "string option"
  ad_destinationPrice :: "string option"
  ad_sourceTotalLocked :: "string option"
  ad_destinationTotalMinted :: "string option"

record Transaction =
  tx_id :: string
  tx_chainId :: string
  tx_protocolAddress :: string
  tx_protocolName :: string
  tx_trace :: TransactionTrace
  tx_additionalData :: "AdditionalData option"

text \<open>
  Values stored in the free-form \<^verbatim>\<open>details\<close> maps. \<open>JPercent r\<close> stands for the template
  string \<^verbatim>\<open>`${r}%`\<close>; the number is kept exact, its rendering as a rounded double is not
  modelled.
\<close>

datatype jsval =
    JUndefined
  | JBool bool
  | JNum rat
  | JNaN
  | JStr string
  | JPercent rat
  | JArr "jsval list"
  | JObj "(string \<times> jsval) list"

record DetectionResult =
  detected :: bool
  message :: string
  details :: "jsval js_object"
  result_type :: "string option"
  result_depth :: "nat option"
  result_addresses :: "string list option"
  result_counts :: "nat list option"

record DetectionResponse =
  requestId :: string
  resp_chainId :: "int option"
  resp_protocolAddress :: string
  resp_protocolName :: string
  resp_message :: string
  resp_detected :: bool
  detectionDetails :: "jsval js_object"

record Thresholds =
  highValueThreshold :: int
  suspiciousGasRatio :: rat
  minCallDepth :: nat
  maxReentrancyDepth :: nat
  minValidatorCount :: nat
  priceDeviationThreshold :: rat

text \<open>The fields of a \<^verbatim>\<open>DetectionService\<close> instance; sets are only tested for membership.\<close>

record DetectionService =
  blacklistedAddresses :: "string list"
  phishingSignatures :: "string list"
  poisoningPatterns :: "string list"
  commonSignatures :: "string js_object"
  governanceSignatures :: "string list"
  oracleSignatures :: "string list"
  bridgeSignatures :: "string list"
  trustedAddresses :: "string list"
  thresholds :: Thresholds

definition new_DetectionService :: DetectionService where
  "new_DetectionService =
     \<lparr> blacklistedAddresses =
         [''0x4d90e2fc6dd6c1e0a45e15a535d89ecbe11da766'',
          ''0xbad0000000000000000000000000000000000bad'',
          ''0x1234000000000000000000000000000000005678''],
       phishingSignatures = [''0x42842e0e'', ''0xc3cda520''],
       poisoningPatterns = [''0x47e7ef24'', ''0xb88d4fde''],
       commonSignatures =
         [(''transfer'', ''0xa9059cbb''), (''transferFrom'', ''0x23b872dd''),
          (''approve'', ''0x095ea7b3''), (''mint'', ''0x40c10f19''), (''burn'', ''0x42966c68'')],
       governanceSignatures = [''0xda95691a'', ''0x56781388'', ''0x0825f38f'', ''0x5c19a95c''],
       oracleSignatures = [''0x8c0b4dad'', ''0x50d25bcd'', ''0x0dfe1681''],
       bridgeSignatures = [''0x89afcb44'', ''0x6e553f65'', ''0xc3805300'', ''0xa2e62045''],
       trustedAddresses =
         [''0xd8dA6BF26964aF9D7eEd9e03E53415D37aA96045'',
          ''0xA2025B15a1757311bfD68cb14eaeFCc237AF5b43''],
       thresholds =
         \<lparr> highValueThreshold = parseEther_100,
           suspiciousGasRatio = 95 / 100,
           minCallDepth = 8,
           maxReentrancyDepth = 3,
           minValidatorCount = 3,
           priceDeviationThreshold = 1 / 10 \<rparr> \<rparr>"

definition empty_result :: "string option \<Rightarrow> DetectionResult" where
  "empty_result ty =
     \<lparr> detected = False, message = [], details = [], result_type = ty,
       result_depth = None, result_addresses = None, result_counts = None \<rparr>"

section \<open>Rule evaluators\<close>

subsection \<open>Spoofing\<close>

text \<open>
  \<^verbatim>\<open>isHashManipulated\<close>: some character occurs more than 20 times in the normalised hash,
  or the character codes increase by one more than 10 times in a row.
\<close>

definition count_chars :: "string \<Rightarrow> nat js_object" where
  "count_chars h =
     fold (\<lambda>c charCounts.
             obj_set charCounts [c] ((case obj_get charCounts [c] of None \<Rightarrow> 0 | Some n \<Rightarrow> n) + 1))
          h []"

fun sequential_scan :: "char \<Rightarrow> string \<Rightarrow> nat \<Rightarrow> bool" where
  "sequential_scan prev [] sequentialCount = False"
| "sequential_scan prev (c # cs) sequentialCount =
     (if (of_char c :: int) = of_char prev + 1
      then (if sequentialCount + 1 > 10 then True
            else sequential_scan c cs (sequentialCount + 1))
      else sequential_scan c cs 0)"

definition isHashManipulated :: "string option \<Rightarrow> bool" where
  "isHashManipulated hash =
     (if \<not> truthy_str hash then False
      else (let normalizedHash = replace_0x (toLowerCase (the hash));
                repeatedChars = list_ex (\<lambda>count. count > 20) (obj_values (count_chars normalizedHash))
            in if repeatedChars then True
               else (case normalizedHash of [] \<Rightarrow> False
                     | c # cs \<Rightarrow> sequential_scan c cs 0)))"

definition similarity_js :: "string \<Rightarrow> string \<Rightarrow> jsval" where
  "similarity_js a b =
     (case calculateAddressSimilarity a b of None \<Rightarrow> JNaN | Some r \<Rightarrow> JNum r)"

definition detectSpoofing :: "DetectionService \<Rightarrow> Transaction \<Rightarrow> DetectionResult" where
  "detectSpoofing this transaction =
     (let trace = tx_trace transaction;
          result = empty_result None;
          result =
            (if toLowerCase (trace_from trace) \<in> set (blacklistedAddresses this)
                \<or> toLowerCase (trace_to trace) \<in> set (blacklistedAddresses this)
             then result\<lparr> detected := True,
                    message := ''Transaction involves blacklisted address.'',
                    details := obj_set (details result) ''blacklistedAddress''
                      (JStr (if toLowerCase (trace_from trace) = toLowerCase (trace_to trace)
                             then trace_from trace
                             else trace_from trace @ '' or '' @ trace_to trace)) \<rparr>
             else result);
          result =
            (if isAddressSpoofing (trace_from trace) (trace_to trace)
             then result\<lparr> detected := True,
                    message := ''Potential address spoofing detected.'',
                    details := obj_set (details result) ''addressSimilarity''
                      (JObj [(''from'', JStr (trace_from trace)), (''to'', JStr (trace_to trace)),
                             (''similarity'', similarity_js (trace_from trace) (trace_to trace))]) \<rparr>
             else result);
          result =
            (if isHashManipulated (trace_transactionHash trace)
             then result\<lparr> detected := True,
                    message := ''Suspicious transaction hash pattern detected.'',
                    details := obj_set (details result) ''suspiciousHash''
                      (JStr (the (trace_transactionHash trace))) \<rparr>
             else result)
      in result)"

subsection \<open>Phishing\<close>

definition unlimited_pattern :: string where
  "unlimited_pattern = replicate 64 CHR ''f''"

definition ownership_topic :: string where
  "ownership_topic = ''0x8be0079c531659141344cd1fd0a4f28419497f9722a3daafe3b4186f6b6457e0''"

definition detectPhishing :: "DetectionService \<Rightarrow> Transaction \<Rightarrow> DetectionResult" where
  "detectPhishing this transaction =
     (let trace = tx_trace transaction;
          result = empty_result None;
          result =
            (if truthy_str (trace_input trace) \<and> length (the (trace_input trace)) \<ge> 10
             then (let input = the (trace_input trace);
                       methodSignature = substring0 input 10;
                       result =
                         (if methodSignature \<in> set (phishingSignatures this)
                          then result\<lparr> detected := True,
                                 message := ''Known phishing signature detected in transaction input.'',
                                 details := obj_set (details result) ''phishingSignature''
                                              (JStr methodSignature) \<rparr>
                          else result);
                       isUnlimitedApproval = includes_str input unlimited_pattern;
                       isToSuspiciousAddress =
                         (toLowerCase (trace_to trace) \<in> set (blacklistedAddresses this))
                   in if Some methodSignature = obj_get (commonSignatures this) ''approve''
                         \<and> isUnlimitedApproval
                      then result\<lparr> detected := True,
                             message := (if isToSuspiciousAddress
                                         then ''Unlimited token approval to suspicious address detected.''
                                         else ''Unlimited token approval detected - potential phishing.''),
                             details := [(''unlimitedApproval'', JBool True),
                                         (''approvalTarget'', JStr (trace_to trace))] \<rparr>
                      else result)
             else result);
          hasOwnershipTransfer =
            (case trace_logs trace of None \<Rightarrow> False
             | Some logs \<Rightarrow> list_ex (\<lambda>log. ownership_topic \<in> set (log_topics log)) logs)
      in if hasOwnershipTransfer
         then result\<lparr> detected := True,
                message := (if toLowerCase (trace_to trace) \<in> set (blacklistedAddresses this)
                            then ''Ownership transfer to suspicious address detected.''
                            else ''Ownership transfer detected - verify legitimacy.''),
                details := [(''ownershipTransfer'', JBool True),
                            (''transferTarget'', JStr (trace_to trace))] \<rparr>
         else result)"

subsection \<open>Poisoning\<close>

text \<open>
  \<^verbatim>\<open>detectUnusualStateChanges\<close> compares property values with \<^verbatim>\<open>!==\<close>: strings and numbers by
  value, objects by identity. The snapshots \<^verbatim>\<open>pre\<close> and \<^verbatim>\<open>post\<close> are separate objects (as
  after parsing a request), so an object-valued property always counts as changed.
\<close>

fun field_to_js :: "field_value \<Rightarrow> jsval" where
  "field_to_js (FString s) = JStr s"
| "field_to_js (FNumber n) = JNum (of_int n)"
| "field_to_js (FObject kv) = JObj (map (\<lambda>p. (fst p, JStr (snd p))) kv)"

definition opt_field_to_js :: "field_value option \<Rightarrow> jsval" where
  "opt_field_to_js f = (case f of None \<Rightarrow> JUndefined | Some v \<Rightarrow> field_to_js v)"

fun strict_neq :: "field_value option \<Rightarrow> field_value option \<Rightarrow> bool" where
  "strict_neq None None = False"
| "strict_neq (Some (FString a)) (Some (FString b)) = (a \<noteq> b)"
| "strict_neq (Some (FNumber a)) (Some (FNumber b)) = (a \<noteq> b)"
| "strict_neq _ _ = True"

definition detectUnusualStateChanges :: "world_state \<Rightarrow> world_state \<Rightarrow> jsval list" where
  "detectUnusualStateChanges preState postState =
     (let changes =
            fold (\<lambda>address changes.
                    (case obj_get preState address of
                       None \<Rightarrow> changes @ [JObj [(''type'', JStr ''new_address''),
                                               (''address'', JStr address)]]
                     | Some preAccount \<Rightarrow>
                        (let postAccount = the (obj_get postState address) in
                         fold (\<lambda>key changes.
                                 if strict_neq (obj_get preAccount key) (obj_get postAccount key)
                                 then changes @ [JObj [(''type'', JStr ''state_change''),
                                        (''address'', JStr address), (''key'', JStr key),
                                        (''oldValue'', opt_field_to_js (obj_get preAccount key)),
                                        (''newValue'', opt_field_to_js (obj_get postAccount key))]]
                                 else changes)
                              (obj_keys postAccount) changes)))
                 (obj_keys postState) []
      in fold (\<lambda>address changes.
                 if obj_get postState address = None
                 then changes @ [JObj [(''type'', JStr ''removed_address''),
                                       (''address'', JStr address)]]
                 else changes)
              (obj_keys preState) changes)"

text \<open>
  \<^verbatim>\<open>addressCallCount[k] = (addressCallCount[k] || 0) + 1\<close> on an object created by \<^verbatim>\<open>{}\<close>.
  Under a name inherited from \<^verbatim>\<open>Object.prototype\<close> that is no own key the lookup gives the
  inherited member, and the sum is a string; a later increment appends to the string, and
  the string is not greater than 3. An assignment of a string to \<^verbatim>\<open>__proto__\<close> is ignored.
  A count is \<open>Some n\<close>; \<open>None\<close> stands for such a string.
\<close>

definition increment_count :: "nat option js_object \<Rightarrow> string \<Rightarrow> nat option js_object" where
  "increment_count obj k =
     (case obj_get obj k of
        Some (Some n) \<Rightarrow> obj_set obj k (Some (n + 1))
      | Some None \<Rightarrow> obj_set obj k None
      | None \<Rightarrow>
          if k = ''__proto__'' then obj
          else if inherited_name k then obj_set obj k None
          else obj_set obj k (Some 1))"

definition lookup_count :: "nat option js_object \<Rightarrow> string \<Rightarrow> nat" where
  "lookup_count obj k = (case obj_get obj k of Some (Some n) \<Rightarrow> n | _ \<Rightarrow> 0)"

definition str_length :: "string option \<Rightarrow> nat" where
  "str_length v = (case v of None \<Rightarrow> 0 | Some s \<Rightarrow> length s)"

definition detectSuspiciousCallPattern :: "DetectionService \<Rightarrow> Call list \<Rightarrow> DetectionResult option" where
  "detectSuspiciousCallPattern this calls =
     (if length calls = 0 then None
      else if length calls > minCallDepth (thresholds this)
      then Some ((empty_result (Some ''deep_call_chain''))
                   \<lparr> detected := True, message := ''Deep call chain detected'',
                     result_depth := Some (length calls) \<rparr>)
      else (let addressCallCount =
                  fold (\<lambda>call acc.
                          if call_to call \<noteq> []
                          then increment_count acc (call_to call)
                          else acc)
                       calls [];
                suspiciousAddresses =
                  filter (\<lambda>addr. lookup_count addressCallCount addr > 3) (obj_keys addressCallCount)
            in if length suspiciousAddresses > 0
               then Some ((empty_result (Some ''repeated_calls''))
                            \<lparr> detected := True,
                              message := ''Repeated calls to same addresses detected'',
                              result_addresses := Some suspiciousAddresses,
                              result_counts :=
                                Some (map (lookup_count addressCallCount) suspiciousAddresses) \<rparr>)
               else (let sizeDisparity =
                           list_ex (\<lambda>call.
                                      (let inputSize = str_length (call_input call);
                                           outputSize = str_length (call_output call)
                                       in inputSize > 0 \<and> outputSize > 100 * inputSize))
                                   calls
                     in if sizeDisparity
                        then Some ((empty_result (Some ''input_output_disparity''))
                                     \<lparr> detected := True,
                                       message := ''Unusual input/output size disparity detected'' \<rparr>)
                        else None)))"

definition result_to_js :: "DetectionResult \<Rightarrow> jsval" where
  "result_to_js r =
     JObj ([(''detected'', JBool (detected r)), (''message'', JStr (message r)),
            (''details'', JObj (details r))]
           @ (case result_type r of None \<Rightarrow> [] | Some t \<Rightarrow> [(''type'', JStr t)])
           @ (case result_depth r of None \<Rightarrow> [] | Some d \<Rightarrow> [(''depth'', JNum (of_nat d))])
           @ (case result_addresses r of None \<Rightarrow> []
              | Some a \<Rightarrow> [(''addresses'', JArr (map JStr a))])
           @ (case result_counts r of None \<Rightarrow> []
              | Some c \<Rightarrow> [(''counts'', JArr (map (\<lambda>n. JNum (of_nat n)) c))]))"

definition detectPoisoning :: "DetectionService \<Rightarrow> Transaction \<Rightarrow> DetectionResult" where
  "detectPoisoning this transaction =
     (let trace = tx_trace transaction;
          result = empty_result None;
          result =
            (if truthy_str (trace_input trace) \<and> length (the (trace_input trace)) \<ge> 10
             then (let methodSignature = substring0 (the (trace_input trace)) 10
                   in if methodSignature \<in> set (poisoningPatterns this)
                      then result\<lparr> detected := True,
                             message := ''Known state poisoning pattern detected.'',
                             details := obj_set (details result) ''poisoningSignature''
                                          (JStr methodSignature) \<rparr>
                      else result)
             else result);
          result =
            (case (trace_pre trace, trace_post trace) of
               (Some pre, Some post) \<Rightarrow>
                 (let unusualStateChanges = detectUnusualStateChanges pre post
                  in if length unusualStateChanges > 0
                     then result\<lparr> detected := True,
                            message := ''Unusual state changes detected - potential poisoning.'',
                            details := obj_set (details result) ''stateChanges''
                                         (JArr unusualStateChanges) \<rparr>
                     else result)
             | _ \<Rightarrow> result);
          result =
            (case trace_calls trace of
               None \<Rightarrow> result
             | Some calls \<Rightarrow>
                 if length calls > 0
                 then (case detectSuspiciousCallPattern this calls of
                         None \<Rightarrow> result
                       | Some suspiciousCallPattern \<Rightarrow>
                           result\<lparr> detected := True,
                             message := ''Unusual function call pattern detected.'',
                             details := obj_set (details result) ''suspiciousCallPattern''
                                          (result_to_js suspiciousCallPattern) \<rparr>)
                 else result)
      in result)"

subsection \<open>Legitimacy override\<close>

definition input_startsWith :: "string option \<Rightarrow> string \<Rightarrow> bool" where
  "input_startsWith inp p = (case inp of None \<Rightarrow> False | Some s \<Rightarrow> startsWith s p)"

definition input_includes :: "string option \<Rightarrow> string \<Rightarrow> bool" where
  "input_includes inp p = (case inp of None \<Rightarrow> False | Some s \<Rightarrow> includes_str s p)"

text \<open>\<^verbatim>\<open>additionalData?.detectorName?.includes('false-positive')\<close> and the test-name check.\<close>

definition detectorName_false_positive :: "AdditionalData option \<Rightarrow> bool" where
  "detectorName_false_positive ad =
     (case ad of None \<Rightarrow> False
      | Some a \<Rightarrow> input_includes (ad_detectorName a) ''false-positive'')"

definition testName_legitimate :: "AdditionalData option \<Rightarrow> bool" where
  "testName_legitimate ad =
     (case ad of None \<Rightarrow> False
      | Some a \<Rightarrow> (case ad_testName a of None \<Rightarrow> False
                   | Some n \<Rightarrow> includes_str (toLowerCase n) ''legitimate''))"

definition ad_field :: "AdditionalData option \<Rightarrow> (AdditionalData \<Rightarrow> 'a option) \<Rightarrow> 'a option" where
  "ad_field ad f = (case ad of None \<Rightarrow> None | Some a \<Rightarrow> f a)"

definition truthy_num :: "int option \<Rightarrow> bool" where
  "truthy_num v = (case v of None \<Rightarrow> False | Some n \<Rightarrow> n \<noteq> 0)"

definition calls_or_empty :: "Transaction \<Rightarrow> Call list" where
  "calls_or_empty transaction =
     (case trace_calls (tx_trace transaction) of None \<Rightarrow> [] | Some cs \<Rightarrow> cs)"

definition opt_call_value :: "Call list \<Rightarrow> nat \<Rightarrow> string option" where
  "opt_call_value calls i = (if i < length calls then call_value (calls ! i) else None)"

definition isLegitimateOperation ::
  "DetectionService \<Rightarrow> Transaction \<Rightarrow> AdditionalData option \<Rightarrow> error + bool" where
  "isLegitimateOperation this transaction additionalData =
     (let calls = calls_or_empty transaction;
          trace = tx_trace transaction
      in if trace_from trace = ''0x1234567890123456789012345678901234567890''
            \<or> ad_field (tx_additionalData transaction) ad_senderType = Some ''verified_entity''
            \<or> testName_legitimate (tx_additionalData transaction)
            \<or> detectorName_false_positive (tx_additionalData transaction)
         then Inr True
         else ebind
           (if input_startsWith (trace_input trace) ''0xc3018a0e''
            then (if length calls > 1
                     \<and> input_startsWith (call_input (calls ! 0)) ''0xc3018a0e''
                     \<and> call_to (calls ! (length calls - 1)) = call_to (calls ! 0)
                  then Inr True
                  else ebind (value_or_zero (opt_call_value calls 0)) (\<lambda>loanAmount.
                       ebind (if length calls = 0 then value_or_zero None
                              else value_or_zero (opt_call_value calls (length calls - 1)))
                         (\<lambda>repaymentAmount.
                            Inr (repaymentAmount > bn_div (loanAmount * 99) 100))))
            else Inr False)
           (\<lambda>flashLoanRepaid.
              if flashLoanRepaid then Inr True
              else if trace_from trace \<in> set (trustedAddresses this)
                      \<and> input_startsWith (trace_input trace) ''0xa9059cbb''
              then Inr True
              else if truthy_num (ad_field additionalData ad_signaturesRequired)
                      \<and> truthy_num (ad_field additionalData ad_signaturesProvided)
                      \<and> the (ad_field additionalData ad_signaturesProvided)
                          \<ge> the (ad_field additionalData ad_signaturesRequired)
              then Inr True
              else if truthy_num (ad_field additionalData ad_validatorsRequired)
                      \<and> truthy_num (ad_field additionalData ad_validatorsConfirmed)
                      \<and> the (ad_field additionalData ad_validatorsConfirmed)
                          \<ge> the (ad_field additionalData ad_validatorsRequired)
              then Inr True
              else if includes_str (toLowerCase (trace_to trace)) ''bridge''
                      \<and> (truthy_num (ad_field additionalData ad_sourceChainId)
                           \<or> truthy_num (ad_field additionalData ad_destinationChainId))
              then Inr True
              else if ad_field additionalData ad_operationType = Some ''verified_protocol_action''
                      \<or> ad_field additionalData ad_contractsVerified = Some True
              then Inr True
              else Inr False))"

subsection \<open>Call graph and reentrancy paths\<close>

record Edge =
  edge_to :: string
  edge_index :: nat
  edge_value :: string

type_synonym call_graph = "Edge list js_object"

definition value_or_zero_str :: "string option \<Rightarrow> string" where
  "value_or_zero_str v = (if truthy_str v then the v else ''0'')"

text \<open>
  The graph is a plain object created by \<^verbatim>\<open>{}\<close>, so \<^verbatim>\<open>graph[k]\<close> under a name inherited
  from \<^verbatim>\<open>Object.prototype\<close> that is no own key gives the inherited member: a truthy value
  with no \<^verbatim>\<open>push\<close> and no \<^verbatim>\<open>forEach\<close>.
\<close>

text \<open>\<^verbatim>\<open>if (!graph[k]) graph[k] = []\<close>: an inherited member is truthy, so no own key is made.\<close>

definition ensure_key :: "call_graph \<Rightarrow> string \<Rightarrow> call_graph" where
  "ensure_key graph k =
     (if obj_get graph k = None \<and> \<not> inherited_name k then obj_set graph k [] else graph)"

text \<open>
  \<^verbatim>\<open>graph[k].push(e)\<close>, where \<open>receiver\<close> is the source text of \<^verbatim>\<open>graph[k]\<close>: without an own key
  the call raises a \<^verbatim>\<open>TypeError\<close>.
\<close>

definition push_edge :: "string \<Rightarrow> call_graph \<Rightarrow> string \<Rightarrow> Edge \<Rightarrow> error + call_graph" where
  "push_edge receiver graph k e =
     (case obj_get graph k of
        Some es \<Rightarrow> Inr (obj_set graph k (es @ [e]))
      | None \<Rightarrow>
          Inl (TypeError (if inherited_name k then receiver @ ''.push is not a function''
                          else ''Cannot read properties of undefined (reading 'push')'')))"

definition is_withdraw_like :: "string option \<Rightarrow> bool" where
  "is_withdraw_like inp =
     (truthy_str inp \<and> (input_includes inp ''0x2e1a7d4d'' \<or> input_includes inp ''0x51cff8d9''))"

text \<open>
  First pass of \<^verbatim>\<open>buildCallGraph\<close>: one forward edge per call that has both addresses. A
  caller named like a member of \<^verbatim>\<open>Object.prototype\<close> gets no own key, and the push raises.
\<close>

definition forward_edge_step :: "nat \<times> Call \<Rightarrow> call_graph \<Rightarrow> error + call_graph" where
  "forward_edge_step ic graph =
     (let index = fst ic; call = snd ic
      in if call_from call = [] \<or> call_to call = [] then Inr graph
         else push_edge ''graph[call.from]'' (ensure_key graph (call_from call)) (call_from call)
                \<lparr> edge_to = call_to call, edge_index = index,
                  edge_value = value_or_zero_str (call_value call) \<rparr>)"

definition forward_edges :: "Call list \<Rightarrow> error + call_graph" where
  "forward_edges calls = fold_err forward_edge_step (enumerate 0 calls) []"

text \<open>
  Second pass: every called address becomes a node, and a call that carries positive value
  or has a withdraw-like input adds the reverse edge. Parsing the value can raise, and so
  can the push when the called address is named like a member of \<^verbatim>\<open>Object.prototype\<close>.
\<close>

definition reverse_edge_step :: "nat \<times> Call \<Rightarrow> call_graph \<Rightarrow> error + call_graph" where
  "reverse_edge_step ic graph =
     (let index = fst ic; call = snd ic
      in if call_from call = [] \<or> call_to call = [] then Inr graph
         else (let graph = ensure_key graph (call_to call)
               in ebind (value_gt (call_value call) 0) (\<lambda>positive.
                    if positive \<or> is_withdraw_like (call_input call)
                    then push_edge ''graph[call.to]'' graph (call_to call)
                           \<lparr> edge_to = call_from call, edge_index = index,
                             edge_value = value_or_zero_str (call_value call) \<rparr>
                    else Inr graph)))"

definition buildCallGraph :: "Call list \<Rightarrow> error + call_graph" where
  "buildCallGraph calls =
     ebind (forward_edges calls) (fold_err reverse_edge_step (enumerate 0 calls))"

text \<open>
  \<^verbatim>\<open>findReentrancyPaths\<close>: the closure \<^verbatim>\<open>dfs\<close> updates the list \<^verbatim>\<open>paths\<close> and the set
  \<^verbatim>\<open>visited\<close>; both are threaded through as a pair. Each recursive call gets its own copy
  of \<^verbatim>\<open>path\<close>. \<^verbatim>\<open>callGraph[node]\<close> is the lookup described above: at a node named like a
  member of \<^verbatim>\<open>Object.prototype\<close> that is no own key of the graph, \<^verbatim>\<open>forEach\<close> is undefined
  and the call raises.
\<close>

function dfs ::
  "nat \<Rightarrow> call_graph \<Rightarrow> string \<Rightarrow> string list \<Rightarrow> nat
   \<Rightarrow> string list list \<times> string set \<Rightarrow> error + string list list \<times> string set" where
  "dfs maxDepth callGraph node path depth st =
     (if depth > maxDepth then Inr st
      else if length path > 0 \<and> node \<in> set path
      then Inr (fst st @ [drop (nat (indexOf path node)) path @ [node]], snd st)
      else (let st1 = (fst st, insert node (snd st));
                path1 = path @ [node]
            in ebind (case obj_get callGraph node of
                        None \<Rightarrow>
                          if inherited_name node
                          then Inl (TypeError ''callGraph[node].forEach is not a function'')
                          else Inr st1
                      | Some edges \<Rightarrow>
                          fold_err (\<lambda>edge s. dfs maxDepth callGraph (edge_to edge) path1
                                                (depth + 1) s)
                                   edges st1)
                 (\<lambda>st2. Inr (fst st2, snd st2 - {node}))))"
  by pat_completeness auto
termination
  by (relation "measure (\<lambda>(maxDepth, callGraph, node, path, depth, st). Suc maxDepth - depth)") auto

declare dfs.simps [simp del]

definition findReentrancyPaths ::
  "DetectionService \<Rightarrow> call_graph \<Rightarrow> error + string list list" where
  "findReentrancyPaths this callGraph =
     ebind (fold_err (\<lambda>node st.
                        if node \<notin> snd st
                        then dfs (maxReentrancyDepth (thresholds this)) callGraph node [] 0 st
                        else Inr st)
                     (obj_keys callGraph) ([], {}))
       (\<lambda>st. Inr (fst st))"

subsection \<open>Reentrancy\<close>

definition pattern_js :: "string \<Rightarrow> string \<Rightarrow> string \<Rightarrow> jsval" where
  "pattern_js p sev descr =
     JObj [(''pattern'', JStr p), (''severity'', JStr sev), (''description'', JStr descr)]"

definition touches :: "string \<Rightarrow> Call \<Rightarrow> bool" where
  "touches addr call = (call_from call = addr \<or> call_to call = addr)"

text \<open>
  \<^verbatim>\<open>path.map(addr => calls.find(..)).filter(call => call !== undefined)\<close>, then the test of
  each later element against its predecessor.
\<close>

definition path_calls :: "Call list \<Rightarrow> string list \<Rightarrow> Call list" where
  "path_calls calls path = List.map_filter (\<lambda>addr. find (touches addr) calls) path"

definition write_after_call :: "Call list \<Rightarrow> nat \<Rightarrow> error + bool" where
  "write_after_call pathCalls index =
     (if index = 0 then Inr False
      else (let call = pathCalls ! index; prevCall = pathCalls ! (index - 1)
            in if input_includes (call_input call) ''0x''
               then value_gt (call_value prevCall) 0
               else Inr False))"

definition related_value_calls :: "Call list \<Rightarrow> string \<Rightarrow> error + Call list" where
  "related_value_calls calls addr =
     filter_err (\<lambda>call. if touches addr call then value_gt (call_value call) 0 else Inr False) calls"

definition is_withdrawal_call :: "Call \<Rightarrow> bool" where
  "is_withdrawal_call call =
     (input_includes (call_input call) ''0x2e1a7d4d'' \<or> input_includes (call_input call) ''0x51cff8d9'')"

definition analyzeReentrancyPatterns :: "Call list \<Rightarrow> string list list \<Rightarrow> error + jsval list" where
  "analyzeReentrancyPatterns calls paths =
     ebind (some_err (\<lambda>path.
                (let pathCalls = path_calls calls path
                 in some_err (write_after_call pathCalls) [0..<length pathCalls]))
              paths)
       (\<lambda>hasWriteAfterCall.
          (let patterns = [];
               patterns =
                 (if hasWriteAfterCall
                  then patterns @ [pattern_js ''write_after_call'' ''high''
                         ''State changes detected after external calls with value transfers'']
                  else patterns);
               withdrawalCalls = filter is_withdrawal_call calls;
               patterns =
                 (if length withdrawalCalls > 1
                  then patterns @ [pattern_js ''multiple_withdrawals'' ''high''
                         (''Multiple withdrawal calls ('' @ nat_to_string (length withdrawalCalls)
                          @ '') detected in the same transaction'')]
                  else patterns)
           in ebind (some_err (\<lambda>path.
                        ebind (fold_err (\<lambda>addr valueTransferCount.
                                   ebind (related_value_calls calls addr) (\<lambda>relatedCalls.
                                     Inr (valueTransferCount + length relatedCalls)))
                                 path 0)
                          (\<lambda>valueTransferCount. Inr (valueTransferCount > 1)))
                      paths)
                (\<lambda>hasNestedValueTransfers.
                   Inr (if hasNestedValueTransfers
                        then patterns @ [pattern_js ''nested_value_transfers'' ''medium''
                               ''Multiple value transfers detected in nested calls'']
                        else patterns))))"

text \<open>\<^verbatim>\<open>a.filter((v, i, a) => a.indexOf(v) === i)\<close>: the first occurrence of each element.\<close>

definition first_occurrences :: "'a list \<Rightarrow> 'a list" where
  "first_occurrences a = map snd (filter (\<lambda>(i, v). indexOf a v = int i) (enumerate 0 a))"

definition paths_js :: "string list list \<Rightarrow> jsval" where
  "paths_js paths = JArr (map (\<lambda>path. JArr (map JStr path)) paths)"

definition detectReentrancy :: "DetectionService \<Rightarrow> Transaction \<Rightarrow> error + DetectionResult" where
  "detectReentrancy this transaction =
     (let trace = tx_trace transaction;
          result = empty_result (Some ''reentrancy'')
      in ebind (isLegitimateOperation this transaction (tx_additionalData transaction))
           (\<lambda>legitimate.
              if legitimate then Inr result
              else if detectorName_false_positive (tx_additionalData transaction)
                      \<or> testName_legitimate (tx_additionalData transaction)
              then Inr result
              else (case trace_calls trace of
                      None \<Rightarrow> Inr result
                    | Some calls \<Rightarrow>
                        if length calls = 0 then Inr result
                        else ebind (buildCallGraph calls) (\<lambda>callGraph.
                          ebind (findReentrancyPaths this callGraph) (\<lambda>reentrancyPaths.
                              if length reentrancyPaths > 0
                              then ebind (analyzeReentrancyPatterns calls reentrancyPaths)
                                     (\<lambda>patterns.
                                        Inr (result\<lparr> detected := True,
                                               message := ''Potential reentrancy attack detected.'',
                                               details :=
                                                 [(''reentrancyPaths'', paths_js reentrancyPaths),
                                                  (''callCount'', JNum (of_nat (length calls))),
                                                  (''suspiciousPatterns'', JArr patterns),
                                                  (''contractsInvolved'',
                                                   JArr (map JStr (first_occurrences
                                                                     (concat reentrancyPaths))))] \<rparr>))
                              else Inr result)))))"

subsection \<open>Front-running\<close>

text \<open>
  \<^verbatim>\<open>parseInt(trace.gas, 16) || parseInt(trace.gas)\<close>: the gas string is read in base 16
  first; the default-radix reading is used only when the first is \<^verbatim>\<open>NaN\<close> or 0.
\<close>

definition gas_value :: "string \<Rightarrow> int option" where
  "gas_value gas = num_or (parseInt gas (Some 16)) (parseInt gas None)"

definition num_js :: "int option \<Rightarrow> jsval" where
  "num_js v = (case v of None \<Rightarrow> JNaN | Some n \<Rightarrow> JNum (of_int n))"

definition gas_difference :: "int option \<Rightarrow> jsval" where
  "gas_difference v =
     (case v of None \<Rightarrow> JStr ''NaN%''
      | Some n \<Rightarrow> JPercent ((of_int n / 21000 - 1) * 100))"

definition detectFrontRunning :: "DetectionService \<Rightarrow> Transaction \<Rightarrow> error + DetectionResult" where
  "detectFrontRunning this transaction =
     (let trace = tx_trace transaction;
          result = empty_result (Some ''front_running'')
      in ebind (isLegitimateOperation this transaction (tx_additionalData transaction))
           (\<lambda>legitimate.
              if legitimate then Inr result
              else if truthy_str (trace_gas trace)
              then (let gas = the (trace_gas trace);
                        gasValue = gas_value gas;
                        highGasLimit = (num_gt gasValue 1000000 \<or> gas = ''2000000'');
                        result =
                          (if highGasLimit
                              \<and> \<not> detectorName_false_positive (tx_additionalData transaction)
                           then result\<lparr> detected := True,
                                  message := ''Unusually high gas limit - potential front-running.'',
                                  details :=
                                    [(''frontRunning'', JObj
                                       [(''highGas'', num_js gasValue),
                                        (''normalGasLimit'', JNum 21000),
                                        (''gasDifference'', gas_difference gasValue),
                                        (''suspicionReason'', JStr
                                           ''Abnormally high gas limit compared to standard transactions'')])] \<rparr>
                           else result);
                        result =
                          (if truthy_str (trace_input trace)
                              \<and> input_startsWith (trace_input trace) ''0xa9059cbb''
                              \<and> gas = ''2000000''
                              \<and> \<not> detectorName_false_positive (tx_additionalData transaction)
                           then result\<lparr> detected := True,
                                  message := ''High gas transfer - potential front-running.'',
                                  details :=
                                    [(''frontRunning'', JObj
                                       [(''highGas'', num_js (parseInt gas None)),
                                        (''functionSignature'',
                                         JStr (substring0 (the (trace_input trace)) 10)),
                                        (''gasDifference'', gas_difference (parseInt gas None)),
                                        (''transactionType'', JStr
                                           ''ERC20 token transfer with unusually high gas'')])] \<rparr>
                           else result)
                    in Inr result)
              else Inr result))"

subsection \<open>Abnormal value, flash loan, honeypot\<close>

definition detectAbnormalValue :: "DetectionService \<Rightarrow> Transaction \<Rightarrow> error + DetectionResult" where
  "detectAbnormalValue this transaction =
     (let trace = tx_trace transaction;
          result = empty_result None
      in if truthy_str (trace_value trace)
         then ebind (BigNumber_from (the (trace_value trace))) (\<lambda>v.
                if v > highValueThreshold (thresholds this)
                   \<or> the (trace_value trace) = ''100000000000000000000''
                then Inr (result\<lparr> detected := True,
                            message := ''Unusually high transaction value detected.'',
                            details :=
                              [(''transactionValue'', JStr (the (trace_value trace))),
                               (''threshold'',
                                JStr (int_to_string (highValueThreshold (thresholds this))))] \<rparr>)
                else Inr result)
         else Inr result)"

definition has_flash_loan_signature :: "Call \<Rightarrow> bool" where
  "has_flash_loan_signature call =
     (truthy_str (call_input call)
      \<and> (input_includes (call_input call) ''0xc3018a0e''
           \<or> input_includes (call_input call) ''0x5cffe9de''
           \<or> input_includes (call_input call) ''0xd9d98ce4''))"

text \<open>
  One round of the loop of \<^verbatim>\<open>detectFlashLoanAttack\<close>; the state is
  (\<^verbatim>\<open>largeValueTransfer\<close>, \<^verbatim>\<open>repaymentPattern\<close>).
\<close>

definition flash_loan_step ::
  "DetectionService \<Rightarrow> Call list \<Rightarrow> nat \<times> Call \<Rightarrow> bool \<times> bool \<Rightarrow> error + bool \<times> bool" where
  "flash_loan_step this calls ic st =
     (let i = fst ic; call = snd ic
      in ebind (value_gt (call_value call) (highValueThreshold (thresholds this))) (\<lambda>large.
           (let largeValueTransfer = (fst st \<or> large)
            in if i > 0 \<and> largeValueTransfer \<and> call_to call = call_from (calls ! 0)
               then ebind (value_gt (call_value call) 0) (\<lambda>positive.
                      Inr (largeValueTransfer, snd st \<or> positive))
               else Inr (largeValueTransfer, snd st))))"

definition detectFlashLoanAttack :: "DetectionService \<Rightarrow> Transaction \<Rightarrow> error + DetectionResult" where
  "detectFlashLoanAttack this transaction =
     (let trace = tx_trace transaction;
          result = empty_result None
      in case trace_calls trace of
           None \<Rightarrow> Inr result
         | Some calls \<Rightarrow>
             if length calls > 0
             then (let hasFlashLoanSignature = list_ex has_flash_loan_signature calls
                   in ebind (fold_err (flash_loan_step this calls) (enumerate 0 calls) (False, False))
                        (\<lambda>(largeValueTransfer, repaymentPattern).
                           if hasFlashLoanSignature \<or> (largeValueTransfer \<and> repaymentPattern)
                           then Inr (result\<lparr> detected := True,
                                       message := ''Flash loan pattern detected - verify legitimacy.'',
                                       details := obj_set (details result) ''flashLoanIndicators''
                                         (JObj [(''hasFlashLoanSignature'', JBool hasFlashLoanSignature),
                                                (''largeValueTransfer'', JBool largeValueTransfer),
                                                (''repaymentPattern'', JBool repaymentPattern)]) \<rparr>)
                           else Inr result))
             else Inr result)"

definition detectHoneypot :: "DetectionService \<Rightarrow> Transaction \<Rightarrow> DetectionResult" where
  "detectHoneypot this transaction =
     (let trace = tx_trace transaction;
          result = empty_result None;
          hasFailedWithdrawal =
            (case trace_calls trace of
               None \<Rightarrow> False
             | Some calls \<Rightarrow>
                 list_ex (\<lambda>call. truthy_str (call_input call)
                                 \<and> input_includes (call_input call) ''0x2e1a7d4d''
                                 \<and> (\<not> truthy_str (call_output call) \<or> call_output call = Some ''0x''))
                         calls)
      in if hasFailedWithdrawal
         then result\<lparr> detected := True,
                message := ''Failed withdrawal detected - potential honeypot.'',
                details := obj_set (details result) ''failedWithdrawal'' (JBool True) \<rparr>
         else result)"

subsection \<open>Governance attack\<close>

text \<open>\<^verbatim>\<open>call.input?.substring(0, 10) || ''\<close>.\<close>

definition selector_of :: "Call \<Rightarrow> string" where
  "selector_of call = (case call_input call of None \<Rightarrow> [] | Some s \<Rightarrow> substring0 s 10)"

text \<open>
  \<^verbatim>\<open>call.input?.startsWith('0xa9059cbb') && BigNumber.from(call.value || '0').gt(parseEther('1000'))\<close>.
\<close>

definition large_transfer :: "Call \<Rightarrow> error + bool" where
  "large_transfer call =
     (if input_startsWith (call_input call) ''0xa9059cbb''
      then ebind (value_or_zero (call_value call)) (\<lambda>v. Inr (v > parseEther_1000))
      else Inr False)"

definition governance_step ::
  "DetectionService \<Rightarrow> Call \<Rightarrow> bool \<times> bool \<times> bool \<Rightarrow> error + bool \<times> bool \<times> bool" where
  "governance_step this call st =
     (let hasFlashLoan = (fst st \<or> input_startsWith (call_input call) ''0xc3018a0e'');
          hasGovernanceAction =
            (fst (snd st) \<or> selector_of call \<in> set (governanceSignatures this))
      in ebind (large_transfer call) (\<lambda>large.
           Inr (hasFlashLoan, hasGovernanceAction, snd (snd st) \<or> large)))"

text \<open>The three nested loops over \<^verbatim>\<open>calls[].calls[].calls[]\<close> of the treasury-drain check.\<close>

definition nested_or_empty :: "Call \<Rightarrow> Call list" where
  "nested_or_empty call = (case call_calls call of None \<Rightarrow> [] | Some cs \<Rightarrow> cs)"

definition treasury_drain_scan :: "Call list \<Rightarrow> error + bool" where
  "treasury_drain_scan calls =
     fold_err (\<lambda>call flag.
        fold_err (\<lambda>nestedCall flag.
           fold_err (\<lambda>deepNestedCall flag.
              ebind (large_transfer deepNestedCall) (\<lambda>large. Inr (flag \<or> large)))
             (nested_or_empty nestedCall) flag)
          (nested_or_empty call) flag)
       calls False"

definition detectGovernanceAttack :: "DetectionService \<Rightarrow> Transaction \<Rightarrow> error + DetectionResult" where
  "detectGovernanceAttack this transaction =
     (let result = empty_result (Some ''governance_attack'');
          calls = calls_or_empty transaction
      in ebind (fold_err (governance_step this) calls (False, False, False))
           (\<lambda>(hasFlashLoan, hasGovernanceAction, hasLargeTransfer).
              ebind (if list_ex (\<lambda>call. input_startsWith (call_input call) ''0x0825f38f'') calls
                     then treasury_drain_scan calls else Inr False)
                (\<lambda>hasTreasuryDrain.
                   (let transferCalls =
                          filter (\<lambda>call. input_startsWith (call_input call) ''0xa9059cbb'') calls;
                        hasMultipleTransfers = (length transferCalls \<ge> 3);
                        hasTimeManipulation =
                          list_ex (\<lambda>call. input_startsWith (call_input call) ''0x9054c7da'') calls;
                        suspiciousPatterns =
                          (if hasFlashLoan \<and> hasGovernanceAction
                           then [JStr ''flash_loan_governance''] else [])
                          @ (if (hasGovernanceAction \<and> hasLargeTransfer) \<or> hasTreasuryDrain
                             then [JStr ''treasury_drain''] else [])
                          @ (if hasMultipleTransfers \<and> hasGovernanceAction
                             then [JStr ''vote_buying''] else [])
                          @ (if hasTimeManipulation \<and> hasGovernanceAction
                             then [JStr ''timelock_bypass''] else []);
                        fired = ((hasFlashLoan \<and> hasGovernanceAction)
                                 \<or> ((hasGovernanceAction \<and> hasLargeTransfer) \<or> hasTreasuryDrain)
                                 \<or> (hasMultipleTransfers \<and> hasGovernanceAction)
                                 \<or> (hasTimeManipulation \<and> hasGovernanceAction))
                    in if fired
                       then Inr (result\<lparr> detected := True,
                                   message := ''Suspicious governance activity detected'',
                                   details :=
                                     [(''suspiciousPatterns'', JArr suspiciousPatterns),
                                      (''hasFlashLoan'', JBool hasFlashLoan),
                                      (''hasGovernanceAction'', JBool hasGovernanceAction),
                                      (''hasLargeTransfer'', JBool hasLargeTransfer),
                                      (''hasTreasuryDrain'', JBool hasTreasuryDrain)] \<rparr>)
                       else Inr result))))"

subsection \<open>Oracle manipulation\<close>

text \<open>\<^verbatim>\<open>parseInt(call.gasUsed || '0') < k\<close>.\<close>

definition gasUsed_below :: "Call \<Rightarrow> int \<Rightarrow> bool" where
  "gasUsed_below call k =
     num_lt (parseInt (if truthy_str (call_gasUsed call) then the (call_gasUsed call) else ''0'') None) k"

text \<open>
  Property access on the value found under \<^verbatim>\<open>storage\<close>. An object has its slots; a number
  has none; a string has its indices and \<^verbatim>\<open>length\<close>. The values read are strings, except the
  length of a string, which is a number.
\<close>

definition truthy_field :: "field_value option \<Rightarrow> bool" where
  "truthy_field f =
     (case f of None \<Rightarrow> False
      | Some (FString s) \<Rightarrow> s \<noteq> []
      | Some (FNumber n) \<Rightarrow> n \<noteq> 0
      | Some (FObject kv) \<Rightarrow> True)"

fun slots_of :: "field_value \<Rightarrow> string list" where
  "slots_of (FObject kv) = obj_keys kv"
| "slots_of (FString s) = map nat_to_string [0..<length s]"
| "slots_of (FNumber n) = []"

fun slot_get :: "field_value \<Rightarrow> string \<Rightarrow> field_value option" where
  "slot_get (FObject kv) slot = map_option FString (obj_get kv slot)"
| "slot_get (FString s) slot =
     (if slot = ''length'' then Some (FNumber (int (length s)))
      else if isArrayIndex slot \<and> digitsValue 10 slot < int (length s)
      then Some (FString [s ! nat (digitsValue 10 slot)])
      else None)"
| "slot_get (FNumber n) slot = None"

text \<open>\<^verbatim>\<open>BigNumber.from\<close> on such a value; a number is accepted when it is a safe integer.\<close>

fun BigNumber_from_field :: "field_value option \<Rightarrow> error + int" where
  "BigNumber_from_field (Some (FString s)) = BigNumber_from s"
| "BigNumber_from_field (Some (FNumber n)) =
     (if \<bar>n\<bar> < 9007199254740991 then Inr n else Inl (InvalidBigNumberString (int_to_string n)))"
| "BigNumber_from_field _ = Inl (InvalidBigNumberString [])"

definition price_jump_slot :: "field_value \<Rightarrow> field_value \<Rightarrow> string \<Rightarrow> bool \<Rightarrow> error + bool" where
  "price_jump_slot preStorage postStorage slot flag =
     (if truthy_field (slot_get postStorage slot)
      then ebind (BigNumber_from_field (slot_get preStorage slot)) (\<lambda>preValue.
           ebind (BigNumber_from_field (slot_get postStorage slot)) (\<lambda>postValue.
             Inr (flag \<or> (preValue \<noteq> 0 \<and> postValue > bn_div (preValue * 15) 10))))
      else Inr flag)"

definition price_jump_address :: "world_state \<Rightarrow> world_state \<Rightarrow> string \<Rightarrow> bool \<Rightarrow> error + bool" where
  "price_jump_address pre post address flag =
     (let preStorage = obj_get (the (obj_get pre address)) ''storage''
      in if truthy_field preStorage
         then (case obj_get post address of
                 None \<Rightarrow> Inl (TypeError ''Cannot read properties of undefined (reading 'storage')'')
               | Some postAccount \<Rightarrow>
                   (let postStorage = obj_get postAccount ''storage''
                    in if truthy_field postStorage
                       then fold_err (price_jump_slot (the preStorage) (the postStorage))
                              (slots_of (the preStorage)) flag
                       else Inr flag))
         else Inr flag)"

definition significant_price_change :: "TransactionTrace \<Rightarrow> error + bool" where
  "significant_price_change trace =
     (case (trace_pre trace, trace_post trace) of
        (Some pre, Some post) \<Rightarrow> fold_err (price_jump_address pre post) (obj_keys pre) False
      | _ \<Rightarrow> Inr False)"

definition is_swap :: "Call \<Rightarrow> bool" where
  "is_swap call = input_startsWith (call_input call) ''0x38ed1739''"

text \<open>
  \<^verbatim>\<open>calls.indexOf(c)\<close> on an element \<^verbatim>\<open>c\<close> of \<^verbatim>\<open>calls\<close> compares object identities, so it is
  the position of that element; positions stand for the elements here.
\<close>

definition borrow_after_swaps :: "Call list \<Rightarrow> bool" where
  "borrow_after_swaps calls =
     list_ex (\<lambda>(j, call). input_startsWith (call_input call) ''0xc5ebeaec''
                \<and> list_all (\<lambda>(i, swapCall). i < j) (filter (\<lambda>(i, c). is_swap c) (enumerate 0 calls)))
             (enumerate 0 calls)"

definition detectOracleManipulation :: "DetectionService \<Rightarrow> Transaction \<Rightarrow> error + DetectionResult" where
  "detectOracleManipulation this transaction =
     (let result = empty_result (Some ''oracle_manipulation'');
          calls = calls_or_empty transaction;
          is_oracle = (\<lambda>call. selector_of call \<in> set (oracleSignatures this));
          hasOracleInteraction = list_ex is_oracle calls;
          hasLargeSwap = list_ex is_swap calls;
          hasFlashLoan = list_ex (\<lambda>call. input_startsWith (call_input call) ''0xc3018a0e'') calls;
          hasLowGasValidation = list_ex (\<lambda>call. is_oracle call \<and> gasUsed_below call 30000) calls;
          hasReverseSwap =
            (length calls \<ge> 3
             \<and> list_ex (\<lambda>i. is_swap (calls ! i) \<and> is_oracle (calls ! (i + 1))
                             \<and> is_swap (calls ! (i + 2)))
                       [0..<length calls - 2])
      in ebind (significant_price_change (tx_trace transaction)) (\<lambda>significantPriceChange.
           (let swapCalls = filter is_swap calls;
                hasMultipleSwaps = (length swapCalls \<ge> 3);
                hasBorrowAfterSwaps = (hasMultipleSwaps \<and> borrow_after_swaps calls);
                suspiciousPatterns =
                  (if hasFlashLoan \<and> hasOracleInteraction \<and> hasLargeSwap
                   then [JStr ''flash_loan_price_manipulation''] else [])
                  @ (if hasReverseSwap then [JStr ''sandwich_attack''] else [])
                  @ (if hasMultipleSwaps \<and> (hasOracleInteraction \<or> hasBorrowAfterSwaps)
                     then [JStr ''twap_manipulation''] else [])
                  @ (if hasLowGasValidation then [JStr ''stale_price_data''] else [])
                  @ (if significantPriceChange then [JStr ''significant_price_change''] else []);
                fired = ((hasFlashLoan \<and> hasOracleInteraction \<and> hasLargeSwap)
                         \<or> hasReverseSwap
                         \<or> (hasMultipleSwaps \<and> (hasOracleInteraction \<or> hasBorrowAfterSwaps))
                         \<or> hasLowGasValidation
                         \<or> significantPriceChange)
            in if fired
               then Inr (result\<lparr> detected := True,
                           message := ''Oracle manipulation attack detected'',
                           details :=
                             [(''suspiciousPatterns'', JArr suspiciousPatterns),
                              (''hasOracleInteraction'', JBool hasOracleInteraction),
                              (''hasLargeSwap'', JBool hasLargeSwap),
                              (''hasFlashLoan'', JBool hasFlashLoan),
                              (''hasMultipleSwaps'', JBool hasMultipleSwaps),
                              (''hasBorrowAfterSwaps'', JBool hasBorrowAfterSwaps),
                              (''significantPriceChange'', JBool significantPriceChange)] \<rparr>)
               else Inr result)))"

subsection \<open>Cross-chain attack\<close>

definition is_verify_proof :: "Call \<Rightarrow> bool" where
  "is_verify_proof call = input_startsWith (call_input call) ''0xa2e62045''"

text \<open>
  The flag \<^verbatim>\<open>hasUnauthorizedWithdrawal\<close> of the loop over the calls; the comparison of the
  value is reached only for a transfer sent by the transaction's recipient.
\<close>

definition unauthorized_withdrawal_step :: "Transaction \<Rightarrow> Call \<Rightarrow> bool \<Rightarrow> error + bool" where
  "unauthorized_withdrawal_step transaction call flag =
     (if toLowerCase (call_from call) = toLowerCase (trace_to (tx_trace transaction))
      then ebind (large_transfer call) (\<lambda>large. Inr (flag \<or> large))
      else Inr flag)"

definition price_inconsistency :: "AdditionalData option \<Rightarrow> error + bool" where
  "price_inconsistency ad =
     (if truthy_str (ad_field ad ad_sourcePrice) \<and> truthy_str (ad_field ad ad_destinationPrice)
      then ebind (BigNumber_from (the (ad_field ad ad_sourcePrice))) (\<lambda>sourcePrice.
           ebind (BigNumber_from (the (ad_field ad ad_destinationPrice))) (\<lambda>destPrice.
             Inr (sourcePrice > 0
                  \<and> (destPrice > bn_div (sourcePrice * 12) 10
                       \<or> destPrice < bn_div (sourcePrice * 8) 10))))
      else Inr False)"

definition balance_inconsistency :: "AdditionalData option \<Rightarrow> error + bool" where
  "balance_inconsistency ad =
     (if truthy_str (ad_field ad ad_sourceTotalLocked)
         \<and> truthy_str (ad_field ad ad_destinationTotalMinted)
      then ebind (BigNumber_from (the (ad_field ad ad_sourceTotalLocked))) (\<lambda>locked.
           ebind (BigNumber_from (the (ad_field ad ad_destinationTotalMinted))) (\<lambda>minted.
             Inr (locked \<noteq> minted)))
      else Inr False)"

definition detectCrossChainAttack :: "DetectionService \<Rightarrow> Transaction \<Rightarrow> error + DetectionResult" where
  "detectCrossChainAttack this transaction =
     (let result = empty_result (Some ''cross_chain_attack'')
      in ebind (isLegitimateOperation this transaction (tx_additionalData transaction))
           (\<lambda>legitimate.
              if legitimate then Inr result
              else if detectorName_false_positive (tx_additionalData transaction) then Inr result
              else (let calls = calls_or_empty transaction;
                        additionalData = tx_additionalData transaction;
                        hasBridgeInteraction =
                          list_ex (\<lambda>call. selector_of call \<in> set (bridgeSignatures this)) calls;
                        hasLowGasValidation =
                          list_ex (\<lambda>call. is_verify_proof call \<and> gasUsed_below call 20000) calls
                    in ebind (fold_err (unauthorized_withdrawal_step transaction) calls False)
                         (\<lambda>hasUnauthorizedWithdrawal.
                       (let hasDoubleSpend =
                              (ad_field additionalData ad_previouslyExecuted = Some True
                               \<or> (truthy_str (ad_field additionalData ad_messageTx)
                                    \<and> ad_field additionalData ad_originalChainId
                                        \<noteq> ad_field additionalData ad_currentChain));
                            hasMessageModification =
                              (truthy_str (ad_field additionalData ad_originalMessage)
                               \<and> truthy_str (ad_field additionalData ad_alteredMessage)
                               \<and> ad_field additionalData ad_originalMessage
                                   \<noteq> ad_field additionalData ad_alteredMessage)
                        in ebind (price_inconsistency additionalData) (\<lambda>hasPriceInconsistency.
                           ebind (balance_inconsistency additionalData) (\<lambda>hasBalanceInconsistency.
                             (let internalCalls =
                                    filter (\<lambda>call. call_input call = Some ''0xffffffff''
                                                    \<and> gasUsed_below call 15000) calls;
                                  hasInsufficientValidation =
                                    (hasLowGasValidation
                                     \<or> (length internalCalls > 0 \<and> hasBridgeInteraction));
                                  verificationCalls = filter is_verify_proof calls;
                                  insufficientValidators =
                                    (length verificationCalls < minValidatorCount (thresholds this));
                                  suspiciousPatterns =
                                    (if hasUnauthorizedWithdrawal
                                     then [JStr ''unauthorized_withdrawal''] else [])
                                    @ (if hasInsufficientValidation \<or> insufficientValidators
                                       then [JStr ''validation_bypass''] else [])
                                    @ (if hasDoubleSpend then [JStr ''cross_chain_replay''] else [])
                                    @ (if hasPriceInconsistency
                                       then [JStr ''price_inconsistency''] else [])
                                    @ (if hasMessageModification
                                       then [JStr ''message_modification''] else [])
                                    @ (if hasBalanceInconsistency
                                       then [JStr ''balance_inconsistency''] else []);
                                  fired = (hasUnauthorizedWithdrawal
                                           \<or> (hasInsufficientValidation \<or> insufficientValidators)
                                           \<or> hasDoubleSpend \<or> hasPriceInconsistency
                                           \<or> hasMessageModification \<or> hasBalanceInconsistency)
                              in if fired
                                 then Inr (result\<lparr> detected := True,
                                             message := ''Cross-chain attack detected'',
                                             details :=
                                               [(''suspiciousPatterns'', JArr suspiciousPatterns),
                                                (''hasBridgeInteraction'', JBool hasBridgeInteraction),
                                                (''hasInsufficientValidation'',
                                                 JBool hasInsufficientValidation),
                                                (''hasUnauthorizedWithdrawal'',
                                                 JBool hasUnauthorizedWithdrawal)] \<rparr>)
                                 else Inr result))))))))"

section \<open>Aggregation\<close>

text \<open>\<^verbatim>\<open>threatMessages.join("; ")\<close>.\<close>

fun join_messages :: "string list \<Rightarrow> string" where
  "join_messages [] = []"
| "join_messages [m] = m"
| "join_messages (m # ms) = m @ ''; '' @ join_messages ms"

text \<open>
  The chain of \<^verbatim>\<open>if (type === ...)\<close> that stores the details of a fired evaluator under
  its own key of \<^verbatim>\<open>detectionDetails\<close>.
\<close>

definition assign_details :: "string \<Rightarrow> jsval js_object \<Rightarrow> jsval js_object \<Rightarrow> jsval js_object" where
  "assign_details type result_details dd =
     (if type = ''spoofing'' then obj_set dd ''spoofing'' (JObj result_details)
      else if type = ''phishing'' then obj_set dd ''phishing'' (JObj result_details)
      else if type = ''poisoning'' then obj_set dd ''poisoning'' (JObj result_details)
      else if type = ''reentrancy'' then obj_set dd ''reentrancy'' (JObj result_details)
      else if type = ''frontRunning'' then obj_set dd ''frontRunning'' (JObj result_details)
      else if type = ''abnormalValue'' then obj_set dd ''abnormalValue'' (JObj result_details)
      else if type = ''flashLoan'' then obj_set dd ''flashLoan'' (JObj result_details)
      else if type = ''honeypot'' then obj_set dd ''honeypot'' (JObj result_details)
      else if type = ''governanceAttack'' then obj_set dd ''governanceAttack'' (JObj result_details)
      else if type = ''oracleManipulation'' then obj_set dd ''oracleManipulation'' (JObj result_details)
      else if type = ''crossChainAttack'' then obj_set dd ''crossChainAttack'' (JObj result_details)
      else dd)"

text \<open>
  One round of the loop over \<^verbatim>\<open>Object.entries(detectionResults)\<close>; the state is
  (\<^verbatim>\<open>threatDetected\<close>, \<^verbatim>\<open>threatMessages\<close>, \<^verbatim>\<open>response.detectionDetails\<close>).
\<close>

definition collect_result ::
  "string \<times> DetectionResult \<Rightarrow> bool \<times> string list \<times> jsval js_object
   \<Rightarrow> bool \<times> string list \<times> jsval js_object" where
  "collect_result entry st =
     (case entry of (type, result) \<Rightarrow>
        (case st of (threatDetected, threatMessages, dd) \<Rightarrow>
           if detected result
           then (True, threatMessages @ [message result],
                 assign_details type (details result) dd)
           else (threatDetected, threatMessages, dd)))"

text \<open>
  The second half of \<^verbatim>\<open>detectThreats\<close>: the loop over the results and the final update of
  the response.
\<close>

definition aggregate ::
  "DetectionResponse \<Rightarrow> (string \<times> DetectionResult) list \<Rightarrow> DetectionResponse" where
  "aggregate response detectionResults =
     (case fold collect_result detectionResults (False, [], detectionDetails response) of
        (threatDetected, threatMessages, dd) \<Rightarrow>
          (let response = response\<lparr> detectionDetails := dd \<rparr>
           in if threatDetected
              then response\<lparr> resp_detected := True,
                     resp_message := join_messages threatMessages \<rparr>
              else response))"

definition detectThreats :: "DetectionService \<Rightarrow> Transaction \<Rightarrow> error + DetectionResponse" where
  "detectThreats this transaction =
     (let response =
            \<lparr> requestId = tx_id transaction,
              resp_chainId = parseInt (tx_chainId transaction) None,
              resp_protocolAddress = tx_protocolAddress transaction,
              resp_protocolName = tx_protocolName transaction,
              resp_message = ''No threats detected'',
              resp_detected = False,
              detectionDetails = [] \<rparr>;
          spoofing = detectSpoofing this transaction;
          phishing = detectPhishing this transaction;
          poisoning = detectPoisoning this transaction
      in ebind (detectReentrancy this transaction) (\<lambda>reentrancy.
         ebind (detectFrontRunning this transaction) (\<lambda>frontRunning.
         ebind (detectAbnormalValue this transaction) (\<lambda>abnormalValue.
         ebind (detectFlashLoanAttack this transaction) (\<lambda>flashLoan.
         (let honeypot = detectHoneypot this transaction
          in ebind (detectGovernanceAttack this transaction) (\<lambda>governanceAttack.
             ebind (detectOracleManipulation this transaction) (\<lambda>oracleManipulation.
             ebind (detectCrossChainAttack this transaction) (\<lambda>crossChainAttack.
               Inr (aggregate response
                      [(''spoofing'', spoofing), (''phishing'', phishing),
                       (''poisoning'', poisoning), (''reentrancy'', reentrancy),
                       (''frontRunning'', frontRunning), (''abnormalValue'', abnormalValue),
                       (''flashLoan'', flashLoan), (''honeypot'', honeypot),
                       (''governanceAttack'', governanceAttack),
                       (''oracleManipulation'', oracleManipulation),
                       (''crossChainAttack'', crossChainAttack)]))))))))))"

text \<open>The eleven rule kinds, the keys \<^verbatim>\<open>DetectionResponse.detectionDetails\<close> declares.\<close>

definition rule_kinds :: "string list" where
  "rule_kinds =
     [''spoofing'', ''phishing'', ''poisoning'', ''reentrancy'', ''frontRunning'',
      ''abnormalValue'', ''flashLoan'', ''honeypot'', ''governanceAttack'',
      ''oracleManipulation'', ''crossChainAttack'']"

text \<open>
  The invariant of a report: the overall flag is set exactly when the per-kind mapping has
  an entry, and every key of the mapping is a rule kind.
\<close>

definition report_invariant :: "bool \<Rightarrow> jsval js_object \<Rightarrow> bool" where
  "report_invariant d dd \<longleftrightarrow> (d \<longleftrightarrow> dd \<noteq> []) \<and> set (obj_keys dd) \<subseteq> set rule_kinds"

section \<open>The static entry point\<close>

text \<open>
  The request type \<^verbatim>\<open>DetectionRequest\<close> is imported by the service; the record lists the
  properties \<^verbatim>\<open>detect\<close> reads. The chain id is a number. The model takes it from the
  non-negative safe integers, the integers below \<open>2 ^ 53\<close>: on these a number holds the integer
  exactly and \<^verbatim>\<open>toString\<close> gives its decimal digits (from \<open>2 ^ 53\<close> the digits are
  rounded, and from \<open>10 ^ 21\<close> the result is in exponent form).
\<close>

record DetectionRequest =
  req_id :: "string option"
  req_detectorName :: "string option"
  req_chainId :: "53 word"
  req_protocolAddress :: "string option"
  req_protocolName :: "string option"
  req_trace :: TransactionTrace
  req_additionalData :: "AdditionalData option"

definition str_or_empty :: "string option \<Rightarrow> string" where
  "str_or_empty v = (case v of None \<Rightarrow> [] | Some s \<Rightarrow> s)"

definition request_transaction :: "DetectionRequest \<Rightarrow> Transaction" where
  "request_transaction request =
     \<lparr> tx_id = str_or_empty (req_id request),
       tx_chainId = int_to_string (uint (req_chainId request)),
       tx_protocolAddress = str_or_empty (req_protocolAddress request),
       tx_protocolName = str_or_empty (req_protocolName request),
       tx_trace =
         \<lparr> trace_from = trace_from (req_trace request),
           trace_to = trace_to (req_trace request),
           trace_input = trace_input (req_trace request),
           trace_output = None,
           trace_value = trace_value (req_trace request),
           trace_gas = trace_gas (req_trace request),
           trace_gasUsed = None,
           trace_transactionHash = trace_transactionHash (req_trace request),
           trace_logs = trace_logs (req_trace request),
           trace_calls = trace_calls (req_trace request),
           trace_pre = trace_pre (req_trace request),
           trace_post = trace_post (req_trace request) \<rparr>,
       tx_additionalData = req_additionalData request \<rparr>"

definition clear_result :: "DetectionResponse \<Rightarrow> DetectionResponse" where
  "clear_result threatResult =
     threatResult\<lparr> resp_detected := False, resp_message := ''No threats detected'',
                   detectionDetails := [] \<rparr>"

definition nested_circular :: "Call \<Rightarrow> bool" where
  "nested_circular call =
     (case call_calls call of
        None \<Rightarrow> False
      | Some nested \<Rightarrow>
          if length nested = 0 then False
          else list_ex (\<lambda>nestedCall. call_to nestedCall = call_from call
                           \<and> input_includes (call_input nestedCall) ''0x2e1a7d4d'')
                       nested)"

definition fixture_reentrancy :: "DetectionRequest \<Rightarrow> DetectionResponse \<Rightarrow> DetectionResponse" where
  "fixture_reentrancy request threatResult =
     (case trace_calls (req_trace request) of
        None \<Rightarrow> threatResult
      | Some calls \<Rightarrow>
          (let withdrawalCalls = filter is_withdrawal_call calls;
               hasCircularCallPattern =
                 (length withdrawalCalls > 1 \<or> list_ex nested_circular calls);
               involved = JArr [JStr (trace_from (req_trace request)),
                                JStr (trace_to (req_trace request))]
           in if hasCircularCallPattern
              then (let threatResult = threatResult\<lparr> resp_detected := True \<rparr>
                    in if obj_get (detectionDetails threatResult) ''reentrancy'' = None
                       then threatResult\<lparr> detectionDetails :=
                              obj_set (detectionDetails threatResult) ''reentrancy''
                                (if length withdrawalCalls \<ge> 3
                                 then JObj
                                   [(''reentrancyPaths'', paths_js [[''0x1234'', ''0x5678'']]),
                                    (''suspiciousPatterns'', JArr
                                       [pattern_js ''multiple_withdrawals'' ''high''
                                          (''Multiple withdrawal calls (''
                                           @ nat_to_string (length withdrawalCalls)
                                           @ '') detected in the same transaction'')]),
                                    (''contractsInvolved'', involved)]
                                 else JObj
                                   [(''reentrancyPaths'',
                                     paths_js [[''0x1234'', ''0x5678'', ''0x1234'']]),
                                    (''suspiciousPatterns'', JArr
                                       [pattern_js ''circular_calls'' ''high''
                                          ''Circular call pattern detected - potential reentrancy'']),
                                    (''contractsInvolved'', involved)]) \<rparr>
                       else threatResult)
              else threatResult))"

definition fixture_front_running :: "DetectionRequest \<Rightarrow> DetectionResponse \<Rightarrow> DetectionResponse" where
  "fixture_front_running request threatResult =
     (if trace_gas (req_trace request) = Some ''2000000''
      then (let threatResult = threatResult\<lparr> resp_detected := True \<rparr>
            in if obj_get (detectionDetails threatResult) ''frontRunning'' = None
               then threatResult\<lparr> detectionDetails :=
                      obj_set (detectionDetails threatResult) ''frontRunning''
                        (JObj [(''highGas'', JNum 2000000),
                               (''functionSignature'',
                                JStr (case trace_input (req_trace request) of
                                        None \<Rightarrow> ''0x''
                                      | Some i \<Rightarrow> if substring0 i 10 = [] then ''0x''
                                                  else substring0 i 10)),
                               (''gasDifference'', JStr ''9500%''),
                               (''transactionType'', JStr ''High gas transaction'')]) \<rparr>
               else threatResult)
      else threatResult)"

definition fixture_legitimate :: "DetectionRequest \<Rightarrow> DetectionResponse \<Rightarrow> DetectionResponse" where
  "fixture_legitimate request threatResult =
     (let trace = req_trace request
      in if trace_from trace = ''0x1234567890123456789012345678901234567890''
         then (let threatResult =
                     (if list_ex (\<lambda>sig. input_startsWith (trace_input trace) sig)
                           [''0xa9059cbb'', ''0x095ea7b3'']
                         \<and> trace_to trace = ''0x1234567890123456789012345678901234567890''
                      then clear_result threatResult else threatResult)
               in if trace_to trace = ''0x2234567890123456789012345678901234567890''
                     \<and> trace_value trace = Some ''5000000000000000000''
                  then clear_result threatResult else threatResult)
         else threatResult)"

definition detect :: "DetectionRequest \<Rightarrow> error + DetectionResponse" where
  "detect request =
     (let service = new_DetectionService;
          transaction = request_transaction request
      in ebind (detectThreats service transaction) (\<lambda>threatResult.
           (let threatResult = fixture_legitimate request threatResult;
                threatResult = fixture_reentrancy request threatResult;
                threatResult = fixture_front_running request threatResult;
                threatResult =
                  (if req_detectorName request = Some ''false-positive-detector''
                   then clear_result threatResult else threatResult)
            in Inr threatResult)))"

section \<open>The reentrancy search as the specification describes it\<close>

text \<open>
  The search tree of the path finder, written from the specification's words rather than
  from the code. A search position is a node reached, the path walked before it, and the
  number of edges taken from the root. From a position within the depth cap whose node is
  not on the path, the search moves along every edge of the node. A cycle is what the
  specification lets the finder record at a position whose node is already on the path:
  the suffix of the path from the first occurrence of the node, followed by the node.
\<close>

inductive search_step ::
  "nat \<Rightarrow> call_graph \<Rightarrow> string \<times> string list \<times> nat \<Rightarrow> string \<times> string list \<times> nat \<Rightarrow> bool"
  for maxDepth :: nat and callGraph :: call_graph where
  descend:
    "depth \<le> maxDepth \<Longrightarrow> node \<notin> set path \<Longrightarrow> obj_get callGraph node = Some edges
     \<Longrightarrow> edge \<in> set edges
     \<Longrightarrow> search_step maxDepth callGraph (node, path, depth)
           (edge_to edge, path @ [node], depth + 1)"

definition search_reaches ::
  "nat \<Rightarrow> call_graph \<Rightarrow> string \<Rightarrow> string \<times> string list \<times> nat \<Rightarrow> bool" where
  "search_reaches maxDepth callGraph root_node pos =
     (search_step maxDepth callGraph)\<^sup>*\<^sup>* (root_node, [], 0) pos"

definition recorded_cycle :: "string \<Rightarrow> string list \<Rightarrow> string list" where
  "recorded_cycle node path = dropWhile (\<lambda>x. x \<noteq> node) path @ [node]"

text \<open>The cycles the specification lets the finder record at or below a search position.\<close>

definition cycles_below ::
  "nat \<Rightarrow> call_graph \<Rightarrow> string \<times> string list \<times> nat \<Rightarrow> string list set" where
  "cycles_below m g pos =
     {recorded_cycle node path | node path depth.
        (search_step m g)\<^sup>*\<^sup>* pos (node, path, depth) \<and> depth \<le> m \<and> node \<in> set path}"

text \<open>
  The finder raises at or below a search position when the search reaches from it, within
  the depth cap, a node not on the current path that is no own key of the graph and is
  named like a member of \<^verbatim>\<open>Object.prototype\<close>.
\<close>

definition raises_below :: "nat \<Rightarrow> call_graph \<Rightarrow> string \<times> string list \<times> nat \<Rightarrow> bool" where
  "raises_below m g pos \<longleftrightarrow>
     (\<exists>node path depth.
        (search_step m g)\<^sup>*\<^sup>* pos (node, path, depth) \<and> depth \<le> m \<and> node \<notin> set path
        \<and> obj_get g node = None \<and> inherited_name node)"

definition forEach_error :: error where
  "forEach_error = TypeError ''callGraph[node].forEach is not a function''"




section \<open>Fixtures\<close>

text \<open>
  The base request of the repository's test suites: a trace with sender and recipient and
  every optional field absent, inside a transaction without additional data. The
  theorems below instantiate it to exhibit concrete runs.
\<close>

definition base_trace :: "string \<Rightarrow> string \<Rightarrow> TransactionTrace" where
  "base_trace sender recipient =
     \<lparr> trace_from = sender, trace_to = recipient, trace_input = None, trace_output = None,
       trace_value = None, trace_gas = None, trace_gasUsed = None,
       trace_transactionHash = None, trace_logs = None, trace_calls = None,
       trace_pre = None, trace_post = None \<rparr>"

definition base_transaction :: "TransactionTrace \<Rightarrow> Transaction" where
  "base_transaction trace =
     \<lparr> tx_id = ''test-id'', tx_chainId = ''1'',
       tx_protocolAddress = ''0x1234567890123456789012345678901234567890'',
       tx_protocolName = ''test-protocol'', tx_trace = trace, tx_additionalData = None \<rparr>"

definition attacker :: string where
  "attacker = ''0x6234567890123456789012345678901234567890''"

definition victim :: string where
  "victim = ''0x7234567890123456789012345678901234567890''"

text \<open>Two call graphs: a ring of three contracts and a ring of four.\<close>

definition edge :: "string \<Rightarrow> nat \<Rightarrow> Edge" where
  "edge target i = \<lparr> edge_to = target, edge_index = i, edge_value = ''0'' \<rparr>"

definition ring3 :: call_graph where
  "ring3 = [(''a'', [edge ''b'' 0]), (''b'', [edge ''c'' 1]), (''c'', [edge ''a'' 2])]"

definition ring4 :: call_graph where
  "ring4 = [(''a'', [edge ''b'' 0]), (''b'', [edge ''c'' 1]), (''c'', [edge ''d'' 2]),
            (''d'', [edge ''a'' 3])]"

text \<open>An evaluation returns: it ends with a result, not with an exception.\<close>

definition returns :: "error + 'a \<Rightarrow> bool" where
  "returns m = (case m of Inl e \<Rightarrow> False | Inr v \<Rightarrow> True)"

text \<open>
  A request of the false-positive test suite whose trace would fire several rules: a
  blacklisted sender, a known phishing selector, 500 ETH and a gas limit of 2,000,000.
\<close>

definition fp_request :: DetectionRequest where
  "fp_request =
     \<lparr> req_id = Some ''test-id'',
       req_detectorName = Some ''false-positive-detector'',
       req_chainId = 1,
       req_protocolAddress = Some ''0x1234567890123456789012345678901234567890'',
       req_protocolName = Some ''test-protocol'',
       req_trace = (base_trace ''0xbad0000000000000000000000000000000000bad'' victim)
                     \<lparr> trace_input := Some ''0x42842e0e'',
                       trace_value := Some ''500000000000000000000'',
                       trace_gas := Some ''2000000'' \<rparr>,
       req_additionalData = None \<rparr>"

text \<open>
  A graph with an edge to a node that is no key of the graph and is named like a member of
  \<^verbatim>\<open>Object.prototype\<close>.
\<close>

definition inherited_graph :: call_graph where
  "inherited_graph = [(''a'', [edge ''a'' 0, edge ''constructor'' 1])]"






text \<open>
  The three calls of a reentrancy: the sender calls the recipient, the recipient calls back
  with a value of 1000, the sender calls again. The value of the first call is a parameter.
\<close>

definition reentrancy_transaction :: "string option \<Rightarrow> Transaction" where
  "reentrancy_transaction v =
     base_transaction ((base_trace attacker victim)
       \<lparr> trace_calls := Some [Call attacker victim None None v None None,
                              Call victim attacker None None (Some ''1000'') None None,
                              Call attacker victim None None None None None] \<rparr>)"

text \<open>The request \<open>fp_request\<close> with a value that is no number.\<close>

definition fp_unparseable_request :: DetectionRequest where
  "fp_unparseable_request =
     fp_request\<lparr> req_trace := (req_trace fp_request)\<lparr> trace_value := Some ''abc'' \<rparr> \<rparr>"

text \<open>Whether an evaluator returned a finding with \<^verbatim>\<open>detected\<close> set.\<close>

definition fires :: "error + DetectionResult \<Rightarrow> bool" where
  "fires r = (case r of Inl e \<Rightarrow> False | Inr res \<Rightarrow> detected res)"

section \<open>Properties\<close>

subsection \<open>Address similarity\<close>

lemma fold_count_filter:
  "fold (\<lambda>i m. if P i then m + 1 else m) xs (k::nat) = k + length (filter P xs)"
  by (induction xs arbitrary: k) auto

lemma count_matches_card:
  "count_matches a1 a2 = card {i. i < length a1 \<and> i < length a2 \<and> a1 ! i = a2 ! i}"
proof -
  let ?P = "\<lambda>i. i < length a2 \<and> a1 ! i = a2 ! i"
  have "count_matches a1 a2 = length (filter ?P [0..<length a1])"
    unfolding count_matches_def by (simp add: fold_count_filter)
  also have "\<dots> = card {i. i < length [0..<length a1] \<and> ?P ([0..<length a1] ! i)}"
    by (rule length_filter_conv_card)
  also have "{i. i < length [0..<length a1] \<and> ?P ([0..<length a1] ! i)}
             = {i. i < length a1 \<and> i < length a2 \<and> a1 ! i = a2 ! i}"
    by auto
  finally show ?thesis .
qed

lemma toLowerChar_0 [simp]: "toLowerChar CHR ''0'' = CHR ''0''"
  by (simp add: toLowerChar_def)

lemma toLowerChar_x [simp]: "toLowerChar CHR ''x'' = CHR ''x''"
  by (simp add: toLowerChar_def)

lemma normalize_0x: "replace_0x (toLowerCase (''0x'' @ s)) = toLowerCase s"
  by (simp add: toLowerCase_def startsWith_def)

lemma count_matches_snoc:
  "count_matches (h @ [c1]) (h @ [c2]) = length h + (if c1 = c2 then 1 else 0)"
proof -
  have "{i. i < length (h @ [c1]) \<and> i < length (h @ [c2]) \<and> (h @ [c1]) ! i = (h @ [c2]) ! i}
        = {i. i < length h} \<union> (if c1 = c2 then {length h} else {})"
    by (auto simp: nth_append less_Suc_eq)
  then show ?thesis
    by (simp add: count_matches_card)
qed

lemma count_matches_none:
  "\<forall>i. i < length a1 \<and> i < length a2 \<longrightarrow> a1 ! i \<noteq> a2 ! i \<Longrightarrow> count_matches a1 a2 = 0"
  by (simp add: count_matches_card)

text \<open>
  Claim C6. With \<open>a1\<close>, \<open>a2\<close> the two addresses lower-cased and with \<^verbatim>\<open>0x\<close> removed:
  the similarity score is the number of positions (of the first address) at which both
  addresses carry the same character, divided by the length of the first address; it is a
  position-wise count, not an edit distance. The similarity trigger \<^verbatim>\<open>isAddressSpoofing\<close>
  fires exactly when the score exists and lies strictly between 0.7 and 1. Two addresses
  that differ at every position score 0, and two addresses \<^verbatim>\<open>0x\<close> + 40 characters that
  agree on the first 39 and differ (case-insensitively) in the last score 39/40, which
  exceeds 0.7, so the trigger fires on them.
\<close>

theorem address_similarity_score:
  fixes address1 address2 :: string
  defines "a1 \<equiv> replace_0x (toLowerCase address1)"
      and "a2 \<equiv> replace_0x (toLowerCase address2)"
  shows "(a1 \<noteq> [] \<longrightarrow>
            calculateAddressSimilarity address1 address2 =
              Some (of_nat (card {i. i < length a1 \<and> i < length a2 \<and> a1 ! i = a2 ! i})
                    / of_nat (length a1)))
       \<and> (isAddressSpoofing address1 address2 \<longleftrightarrow>
            (\<exists>s. calculateAddressSimilarity address1 address2 = Some s \<and> 7 / 10 < s \<and> s < 1))
       \<and> (a1 \<noteq> [] \<and> (\<forall>i. i < length a1 \<and> i < length a2 \<longrightarrow> a1 ! i \<noteq> a2 ! i) \<longrightarrow>
            calculateAddressSimilarity address1 address2 = Some 0)
       \<and> (\<forall>h c1 c2. length h = 39 \<and> toLowerChar c1 \<noteq> toLowerChar c2 \<longrightarrow>
            calculateAddressSimilarity (''0x'' @ h @ [c1]) (''0x'' @ h @ [c2]) = Some (39 / 40)
            \<and> (7 / 10 :: rat) < 39 / 40
            \<and> isAddressSpoofing (''0x'' @ h @ [c1]) (''0x'' @ h @ [c2]))"
proof (intro conjI allI impI)
  assume "a1 \<noteq> []"
  then show "calculateAddressSimilarity address1 address2 =
              Some (of_nat (card {i. i < length a1 \<and> i < length a2 \<and> a1 ! i = a2 ! i})
                    / of_nat (length a1))"
    by (simp add: calculateAddressSimilarity_def Let_def a1_def a2_def count_matches_card)
next
  show "isAddressSpoofing address1 address2 \<longleftrightarrow>
            (\<exists>s. calculateAddressSimilarity address1 address2 = Some s \<and> 7 / 10 < s \<and> s < 1)"
  proof (cases "address1 = [] \<or> address2 = []")
    case True
    then show ?thesis
      by (auto simp: isAddressSpoofing_def calculateAddressSimilarity_def Let_def toLowerCase_def
            count_matches_card)
  next
    case False
    then show ?thesis
      by (auto simp: isAddressSpoofing_def split: option.splits)
  qed
next
  assume "a1 \<noteq> [] \<and> (\<forall>i. i < length a1 \<and> i < length a2 \<longrightarrow> a1 ! i \<noteq> a2 ! i)"
  then show "calculateAddressSimilarity address1 address2 = Some 0"
    by (simp add: calculateAddressSimilarity_def Let_def a1_def a2_def count_matches_none)
next
  fix h :: string and c1 c2 :: char
  assume h: "length h = 39 \<and> toLowerChar c1 \<noteq> toLowerChar c2"
  have n1: "replace_0x (toLowerCase (''0x'' @ h @ [c1])) = toLowerCase h @ [toLowerChar c1]"
    by (simp only: normalize_0x) (simp add: toLowerCase_def)
  have n2: "replace_0x (toLowerCase (''0x'' @ h @ [c2])) = toLowerCase h @ [toLowerChar c2]"
    by (simp only: normalize_0x) (simp add: toLowerCase_def)
  have len: "length (toLowerCase h) = 39" using h by (simp add: toLowerCase_def)
  show sc: "calculateAddressSimilarity (''0x'' @ h @ [c1]) (''0x'' @ h @ [c2]) = Some (39 / 40)"
    unfolding calculateAddressSimilarity_def Let_def n1 n2 count_matches_snoc
    using h len by simp
  show "isAddressSpoofing (''0x'' @ h @ [c1]) (''0x'' @ h @ [c2])"
    unfolding isAddressSpoofing_def sc by simp
  show "(7 / 10 :: rat) < 39 / 40" by simp
qed

theorem address_similarity_score_witness:
  "replace_0x (toLowerCase ''0xAAAA'') \<noteq> []
   \<and> \<not> (\<exists>i. i < length (replace_0x (toLowerCase ''0xAAAA''))
              \<and> i < length (replace_0x (toLowerCase ''0xbbbbb''))
              \<and> replace_0x (toLowerCase ''0xAAAA'') ! i = replace_0x (toLowerCase ''0xbbbbb'') ! i)
   \<and> calculateAddressSimilarity ''0xAAAA'' ''0xbbbbb'' = Some 0
   \<and> \<not> isAddressSpoofing ''0xAAAA'' ''0xbbbbb''
   \<and> length ''123456789012345678901234567890123456789'' = 39
   \<and> toLowerChar CHR ''0'' \<noteq> toLowerChar CHR ''1''
   \<and> calculateAddressSimilarity ''0x1234567890123456789012345678901234567890''
         ''0x1234567890123456789012345678901234567891'' = Some (39 / 40)
   \<and> isAddressSpoofing ''0x1234567890123456789012345678901234567890''
         ''0x1234567890123456789012345678901234567891''"
proof -
  have n1: "replace_0x (toLowerCase ''0xAAAA'') = ''aaaa''"
    by code_simp
  have n2: "replace_0x (toLowerCase ''0xbbbbb'') = ''bbbbb''"
    by code_simp
  have d: "\<forall>i. i < length ''aaaa'' \<and> i < length ''bbbbb'' \<longrightarrow> ''aaaa'' ! i \<noteq> ''bbbbb'' ! i"
    by (simp add: nth_Cons' )
  have c: "toLowerChar CHR ''0'' \<noteq> toLowerChar CHR ''1''"
    by (simp add: toLowerChar_def)
  note t1 = address_similarity_score [of "''0xAAAA''" "''0xbbbbb''", unfolded n1 n2]
  note t2 = address_similarity_score [of "''0xAAAA''" "''0xbbbbb''", THEN conjunct2, THEN conjunct2,
      THEN conjunct2, rule_format, of "''123456789012345678901234567890123456789''" "CHR ''0''" "CHR ''1''"]
  from t1 d have z: "calculateAddressSimilarity ''0xAAAA'' ''0xbbbbb'' = Some 0" by simp
  from t1 z have ns: "\<not> isAddressSpoofing ''0xAAAA'' ''0xbbbbb''" by simp
  from t2 c have "calculateAddressSimilarity ''0x1234567890123456789012345678901234567890''
         ''0x1234567890123456789012345678901234567891'' = Some (39 / 40)
       \<and> isAddressSpoofing ''0x1234567890123456789012345678901234567890''
         ''0x1234567890123456789012345678901234567891''" by simp
  with z ns c d show ?thesis unfolding n1 n2 by simp
qed

subsection \<open>Abnormal value\<close>

lemma highValueThreshold_new [simp]:
  "highValueThreshold (thresholds new_DetectionService) = 100000000000000000000"
  by (simp add: new_DetectionService_def parseEther_100_def)

lemma BigNumber_from_nonempty: "BigNumber_from s = Inr v \<Longrightarrow> s \<noteq> []"
  by (auto simp: BigNumber_from_def Let_def startsWith_def)

lemma abnormal_fires_iff:
  assumes "trace_value (tx_trace tx) = Some s" and "BigNumber_from s = Inr v"
  shows "fires (detectAbnormalValue new_DetectionService tx) \<longleftrightarrow>
           (v > 100000000000000000000 \<or> s = ''100000000000000000000'')"
proof -
  have "s \<noteq> []" using assms(2) by (rule BigNumber_from_nonempty)
  then show ?thesis using assms
    by (simp add: detectAbnormalValue_def Let_def truthy_str_def ebind_def fires_def
          empty_result_def)
qed

lemma BigNumber_from_threshold:
  "BigNumber_from ''100000000000000000000'' = Inr 100000000000000000000"
  by code_simp

lemma BigNumber_from_threshold_plus_one:
  "BigNumber_from ''100000000000000000001'' = Inr 100000000000000000001"
  by code_simp

text \<open>
  Claim C2, first half, fails: a trace value that is the decimal string of exactly the
  threshold (100 * 10^18) makes the abnormal-value evaluator fire, through the explicit
  comparison with the literal \<^verbatim>\<open>'100000000000000000000'\<close>.
\<close>

theorem abnormal_value_at_threshold_counterexample:
  "BigNumber_from ''100000000000000000000''
     = Inr (highValueThreshold (thresholds new_DetectionService))
   \<and> fires (detectAbnormalValue new_DetectionService
        (base_transaction ((base_trace attacker victim)
           \<lparr> trace_value := Some ''100000000000000000000'' \<rparr>)))"
  by code_simp

text \<open>
  Claim C2 as amended. The evaluator fires on the decimal string of exactly the threshold;
  on every other value string that denotes a number it fires exactly when the number
  exceeds the threshold; so it fires on threshold + 1.
\<close>

theorem abnormal_value_boundary:
  "(trace_value (tx_trace tx) = Some ''100000000000000000000''
      \<longrightarrow> fires (detectAbnormalValue new_DetectionService tx))
   \<and> (\<forall>s v. trace_value (tx_trace tx) = Some s \<and> BigNumber_from s = Inr v
              \<and> s \<noteq> ''100000000000000000000''
        \<longrightarrow> (fires (detectAbnormalValue new_DetectionService tx)
              \<longleftrightarrow> v > highValueThreshold (thresholds new_DetectionService)))
   \<and> (trace_value (tx_trace tx) = Some ''100000000000000000001''
      \<longrightarrow> BigNumber_from ''100000000000000000001''
            = Inr (highValueThreshold (thresholds new_DetectionService) + 1)
          \<and> fires (detectAbnormalValue new_DetectionService tx))"
proof (intro conjI allI impI)
  assume "trace_value (tx_trace tx) = Some ''100000000000000000000''"
  then show "fires (detectAbnormalValue new_DetectionService tx)"
    using abnormal_fires_iff [OF _ BigNumber_from_threshold] by simp
next
  fix s v
  assume "trace_value (tx_trace tx) = Some s \<and> BigNumber_from s = Inr v
            \<and> s \<noteq> ''100000000000000000000''"
  then show "fires (detectAbnormalValue new_DetectionService tx)
              \<longleftrightarrow> v > highValueThreshold (thresholds new_DetectionService)"
    using abnormal_fires_iff [of tx s v] by simp
next
  assume a: "trace_value (tx_trace tx) = Some ''100000000000000000001''"
  show "BigNumber_from ''100000000000000000001''
            = Inr (highValueThreshold (thresholds new_DetectionService) + 1)"
    by (simp add: BigNumber_from_threshold_plus_one)
  show "fires (detectAbnormalValue new_DetectionService tx)"
    using abnormal_fires_iff [OF a BigNumber_from_threshold_plus_one] by simp
qed

theorem abnormal_value_boundary_witness:
  "fires (detectAbnormalValue new_DetectionService
      (base_transaction ((base_trace attacker victim)
         \<lparr> trace_value := Some ''100000000000000000000'' \<rparr>)))
   \<and> fires (detectAbnormalValue new_DetectionService
      (base_transaction ((base_trace attacker victim)
         \<lparr> trace_value := Some ''100000000000000000001'' \<rparr>)))
   \<and> BigNumber_from ''0x56bc75e2d63100000'' = Inr 100000000000000000000
   \<and> \<not> fires (detectAbnormalValue new_DetectionService
      (base_transaction ((base_trace attacker victim)
         \<lparr> trace_value := Some ''0x56bc75e2d63100000'' \<rparr>)))
   \<and> BigNumber_from ''99999999999999999999'' = Inr 99999999999999999999
   \<and> \<not> fires (detectAbnormalValue new_DetectionService
      (base_transaction ((base_trace attacker victim)
         \<lparr> trace_value := Some ''99999999999999999999'' \<rparr>)))"
proof -
  have hex: "BigNumber_from ''0x56bc75e2d63100000'' = Inr 100000000000000000000"
    by code_simp
  have below: "BigNumber_from ''99999999999999999999'' = Inr 99999999999999999999"
    by code_simp
  have v: "trace_value (tx_trace (base_transaction ((base_trace attacker victim)
              \<lparr> trace_value := Some s \<rparr>))) = Some s" for s
    by (simp add: base_transaction_def base_trace_def)
  note b1 = abnormal_value_boundary [of "base_transaction ((base_trace attacker victim)
              \<lparr> trace_value := Some ''100000000000000000000'' \<rparr>)"]
  note b2 = abnormal_value_boundary [of "base_transaction ((base_trace attacker victim)
              \<lparr> trace_value := Some ''100000000000000000001'' \<rparr>)"]
  note b3 = abnormal_value_boundary [of "base_transaction ((base_trace attacker victim)
              \<lparr> trace_value := Some ''0x56bc75e2d63100000'' \<rparr>)", THEN conjunct2,
              THEN conjunct1, rule_format, of "''0x56bc75e2d63100000''" 100000000000000000000]
  note b4 = abnormal_value_boundary [of "base_transaction ((base_trace attacker victim)
              \<lparr> trace_value := Some ''99999999999999999999'' \<rparr>)", THEN conjunct2,
              THEN conjunct1, rule_format, of "''99999999999999999999''" 99999999999999999999]
  from b1 have f1: "fires (detectAbnormalValue new_DetectionService
      (base_transaction ((base_trace attacker victim)
         \<lparr> trace_value := Some ''100000000000000000000'' \<rparr>)))"
    by (simp add: v)
  from b2 have f2: "fires (detectAbnormalValue new_DetectionService
      (base_transaction ((base_trace attacker victim)
         \<lparr> trace_value := Some ''100000000000000000001'' \<rparr>)))"
    by (simp add: v)
  from b3 hex have f3: "\<not> fires (detectAbnormalValue new_DetectionService
      (base_transaction ((base_trace attacker victim)
         \<lparr> trace_value := Some ''0x56bc75e2d63100000'' \<rparr>)))"
    by (simp add: v)
  from b4 below have f4: "\<not> fires (detectAbnormalValue new_DetectionService
      (base_transaction ((base_trace attacker victim)
         \<lparr> trace_value := Some ''99999999999999999999'' \<rparr>)))"
    by (simp add: v)
  from f1 f2 f3 f4 hex below show ?thesis by simp
qed

subsection \<open>Front-running and the gas string\<close>

text \<open>
  Claim C7 on the code: the gas string \<^verbatim>\<open>'100000'\<close> denotes one hundred thousand, which does
  not exceed 1,000,000, and the transaction is not suppressed by the override; yet the
  evaluator fires, because \<^verbatim>\<open>parseInt(trace.gas, 16)\<close> reads the decimal digits in base 16
  (1,048,576) and the decimal reading is never consulted.
\<close>

theorem front_running_decimal_gas_read_as_hex:
  "parseInt ''100000'' None = Some 100000
   \<and> gas_value ''100000'' = Some 1048576
   \<and> isLegitimateOperation new_DetectionService
        (base_transaction ((base_trace attacker victim) \<lparr> trace_gas := Some ''100000'' \<rparr>)) None
      = Inr False
   \<and> fires (detectFrontRunning new_DetectionService
        (base_transaction ((base_trace attacker victim) \<lparr> trace_gas := Some ''100000'' \<rparr>)))"
  by code_simp

subsection \<open>The reentrancy path finder\<close>

lemma search_step_depth: "search_step m g (n, p, d) (n', p', d') \<Longrightarrow> d' = d + 1 \<and> d \<le> m \<and> n \<notin> set p"
  by (auto elim: search_step.cases)

lemma search_reach_depth:
  "(search_step m g)\<^sup>*\<^sup>* pos pos' \<Longrightarrow> snd (snd pos) \<le> snd (snd pos')"
proof (induction rule: rtranclp_induct)
  case base
  show ?case by simp
next
  case (step y z)
  then show ?case by (cases y; cases z) (auto dest: search_step_depth)
qed

lemma cycles_below_too_deep: "m < d \<Longrightarrow> cycles_below m g (n, p, d) = {}"
  unfolding cycles_below_def by (auto dest!: search_reach_depth)

lemma no_step_from_cycle: "n \<in> set p \<Longrightarrow> \<not> search_step m g (n, p, d) pos"
  by (cases pos) (auto dest: search_step_depth)

lemma drop_indexOf:
  "n \<in> set p \<Longrightarrow> drop (nat (indexOf p n)) p = dropWhile (\<lambda>x. x \<noteq> n) p"
proof (induction p)
  case Nil
  then show ?case by simp
next
  case (Cons a p)
  show ?case
  proof (cases "a = n")
    case True
    then show ?thesis by simp
  next
    case False
    with Cons.prems have np: "n \<in> set p" by simp
    have nonneg: "0 \<le> indexOf p n" using np
      by (induction p) (auto simp: Let_def)
    from False np Cons.IH nonneg show ?thesis
      by (simp add: Let_def nat_add_distrib)
  qed
qed

lemma cycles_below_cycle:
  assumes "d \<le> m" "n \<in> set p"
  shows "cycles_below m g (n, p, d) = {recorded_cycle n p}"
proof -
  have "(search_step m g)\<^sup>*\<^sup>* (n, p, d) pos \<Longrightarrow> pos = (n, p, d)" for pos
    using assms(2) by (auto elim: converse_rtranclpE dest: no_step_from_cycle [where m = m and g = g and d = d])
  then show ?thesis using assms unfolding cycles_below_def by auto
qed

lemma cycles_below_explore:
  assumes "d \<le> m" "n \<notin> set p"
  shows "cycles_below m g (n, p, d) =
           (case obj_get g n of None \<Rightarrow> {}
            | Some edges \<Rightarrow> (\<Union>e \<in> set edges. cycles_below m g (edge_to e, p @ [n], Suc d)))"
proof (intro set_eqI iffI)
  fix c
  assume "c \<in> cycles_below m g (n, p, d)"
  then obtain node path depth where c: "c = recorded_cycle node path"
    and r: "(search_step m g)\<^sup>*\<^sup>* (n, p, d) (node, path, depth)"
    and dm: "depth \<le> m" and mem: "node \<in> set path"
    unfolding cycles_below_def by blast
  from r show "c \<in> (case obj_get g n of None \<Rightarrow> {}
            | Some edges \<Rightarrow> (\<Union>e \<in> set edges. cycles_below m g (edge_to e, p @ [n], Suc d)))"
  proof (cases rule: converse_rtranclpE)
    case base
    with mem assms(2) show ?thesis by simp
  next
    case (step y)
    from step(1) obtain edges e where "obj_get g n = Some edges" "e \<in> set edges"
      "y = (edge_to e, p @ [n], d + 1)"
      by (auto elim: search_step.cases)
    with step(2) c dm mem show ?thesis
      unfolding cycles_below_def by auto
  qed
next
  fix c
  assume a: "c \<in> (case obj_get g n of None \<Rightarrow> {}
            | Some edges \<Rightarrow> (\<Union>e \<in> set edges. cycles_below m g (edge_to e, p @ [n], Suc d)))"
  then obtain edges e where g: "obj_get g n = Some edges" and e: "e \<in> set edges"
    and c: "c \<in> cycles_below m g (edge_to e, p @ [n], Suc d)"
    by (auto split: option.splits)
  have "search_step m g (n, p, d) (edge_to e, p @ [n], d + 1)"
    using assms g e by (rule search_step.descend)
  then have st: "search_step m g (n, p, d) (edge_to e, p @ [n], Suc d)" by simp
  from c obtain node path depth where "c = recorded_cycle node path"
    "(search_step m g)\<^sup>*\<^sup>* (edge_to e, p @ [n], Suc d) (node, path, depth)"
    "depth \<le> m" "node \<in> set path"
    unfolding cycles_below_def by blast
  with st show "c \<in> cycles_below m g (n, p, d)"
    unfolding cycles_below_def by (blast intro: converse_rtranclp_into_rtranclp)
qed

lemma raises_below_too_deep: "m < d \<Longrightarrow> \<not> raises_below m g (n, p, d)"
  unfolding raises_below_def by (auto dest!: search_reach_depth)

lemma raises_below_cycle: "n \<in> set p \<Longrightarrow> \<not> raises_below m g (n, p, d)"
proof -
  assume n: "n \<in> set p"
  have "(search_step m g)\<^sup>*\<^sup>* (n, p, d) pos \<Longrightarrow> pos = (n, p, d)" for pos
    using n by (auto elim: converse_rtranclpE dest: no_step_from_cycle [where m = m and g = g and d = d])
  with n show ?thesis unfolding raises_below_def by auto
qed

lemma raises_below_explore:
  assumes "d \<le> m" "n \<notin> set p"
  shows "raises_below m g (n, p, d) \<longleftrightarrow>
           (case obj_get g n of None \<Rightarrow> inherited_name n
            | Some edges \<Rightarrow> (\<exists>e \<in> set edges. raises_below m g (edge_to e, p @ [n], Suc d)))"
proof
  assume "raises_below m g (n, p, d)"
  then obtain node path depth where
    r: "(search_step m g)\<^sup>*\<^sup>* (n, p, d) (node, path, depth)"
    and dm: "depth \<le> m" and mem: "node \<notin> set path"
    and none: "obj_get g node = None" and inh: "inherited_name node"
    unfolding raises_below_def by blast
  from r show "case obj_get g n of None \<Rightarrow> inherited_name n
            | Some edges \<Rightarrow> (\<exists>e \<in> set edges. raises_below m g (edge_to e, p @ [n], Suc d))"
  proof (cases rule: converse_rtranclpE)
    case base
    with none inh show ?thesis by simp
  next
    case (step y)
    from step(1) obtain edges e where "obj_get g n = Some edges" "e \<in> set edges"
      "y = (edge_to e, p @ [n], d + 1)"
      by (auto elim: search_step.cases)
    with step(2) dm mem none inh show ?thesis
      unfolding raises_below_def by auto
  qed
next
  assume a: "case obj_get g n of None \<Rightarrow> inherited_name n
            | Some edges \<Rightarrow> (\<exists>e \<in> set edges. raises_below m g (edge_to e, p @ [n], Suc d))"
  show "raises_below m g (n, p, d)"
  proof (cases "obj_get g n")
    case None
    with a assms show ?thesis unfolding raises_below_def by auto
  next
    case (Some edges)
    with a obtain e where e: "e \<in> set edges"
      and c: "raises_below m g (edge_to e, p @ [n], Suc d)"
      by auto
    have "search_step m g (n, p, d) (edge_to e, p @ [n], d + 1)"
      using assms Some e by (rule search_step.descend)
    then have st: "search_step m g (n, p, d) (edge_to e, p @ [n], Suc d)" by simp
    from c obtain node path depth where
      "(search_step m g)\<^sup>*\<^sup>* (edge_to e, p @ [n], Suc d) (node, path, depth)"
      "depth \<le> m" "node \<notin> set path" "obj_get g node = None" "inherited_name node"
      unfolding raises_below_def by blast
    with st show ?thesis
      unfolding raises_below_def by (blast intro: converse_rtranclp_into_rtranclp)
  qed
qed

lemma fold_err_search:
  fixes f :: "'a \<Rightarrow> string list list \<times> string set \<Rightarrow> error + string list list \<times> string set"
  assumes raise: "\<And>x s. x \<in> set xs \<Longrightarrow> R x \<Longrightarrow> f x s = Inl err"
    and return: "\<And>x s. x \<in> set xs \<Longrightarrow> \<not> R x \<Longrightarrow>
           \<exists>s'. f x s = Inr s' \<and> set (fst s') = set (fst s) \<union> C x \<and> snd s' \<subseteq> snd s"
  shows "(\<exists>x \<in> set xs. R x) \<Longrightarrow> fold_err f xs s = Inl err"
    and "\<not> (\<exists>x \<in> set xs. R x) \<Longrightarrow>
           \<exists>s'. fold_err f xs s = Inr s' \<and> set (fst s') = set (fst s) \<union> (\<Union>x \<in> set xs. C x)
                \<and> snd s' \<subseteq> snd s"
  using assms
proof (induction xs arbitrary: s)
  case Nil
  {
    case 1
    then show ?case by simp
  next
    case 2
    show ?case by simp
  }
next
  case (Cons x xs)
  {
    case 1
    show ?case
    proof (cases "R x")
      case True
      with 1(2) [of x s] show ?thesis by simp
    next
      case False
      with 1(3) [of x s] obtain s1 where s1: "f x s = Inr s1" by auto
      from False 1(1) have "\<exists>x \<in> set xs. R x" by auto
      from Cons.IH(1) [OF this, of s1] 1(2) 1(3) have "fold_err f xs s1 = Inl err" by auto
      with s1 show ?thesis by simp
    qed
  next
    case 2
    from 2(1) have nx: "\<not> R x" and nxs: "\<not> (\<exists>x \<in> set xs. R x)" by auto
    from 2(3) [of x s] nx obtain s1 where s1: "f x s = Inr s1"
      and p1: "set (fst s1) = set (fst s) \<union> C x" and v1: "snd s1 \<subseteq> snd s" by auto
    from Cons.IH(2) [OF nxs, of s1] 2(2) 2(3)
    obtain s' where "fold_err f xs s1 = Inr s'"
      "set (fst s') = set (fst s1) \<union> (\<Union>x \<in> set xs. C x)" "snd s' \<subseteq> snd s1"
      by auto
    with s1 p1 v1 show ?case by auto
  }
qed


lemma dfs_result:
  "(raises_below m g (n, p, d) \<longrightarrow> dfs m g n p d st = Inl forEach_error)
   \<and> (\<not> raises_below m g (n, p, d) \<longrightarrow>
        (\<exists>st'. dfs m g n p d st = Inr st'
           \<and> set (fst st') = set (fst st) \<union> cycles_below m g (n, p, d) \<and> snd st' \<subseteq> snd st))"
proof (induction m g n p d st rule: dfs.induct)
  case (1 m g n p d st)
  show ?case
  proof (cases "m < d")
    case True
    then show ?thesis
      by (subst dfs.simps, subst dfs.simps)
         (simp add: cycles_below_too_deep raises_below_too_deep)
  next
    case deep: False
    show ?thesis
    proof (cases "n \<in> set p")
      case True
      then have "0 < length p" by (cases p) auto
      with True deep show ?thesis
        by (subst dfs.simps, subst dfs.simps)
           (simp add: cycles_below_cycle raises_below_cycle drop_indexOf recorded_cycle_def)
    next
      case False
      from deep False have ex: "raises_below m g (n, p, d) \<longleftrightarrow>
           (case obj_get g n of None \<Rightarrow> inherited_name n
            | Some edges \<Rightarrow> (\<exists>e \<in> set edges. raises_below m g (edge_to e, p @ [n], Suc d)))"
        by (intro raises_below_explore) simp_all
      show ?thesis
      proof (cases "obj_get g n")
        case None
        with False deep ex show ?thesis
          by (subst dfs.simps, subst dfs.simps)
             (auto simp: cycles_below_explore Let_def ebind_def forEach_error_def)
      next
        case (Some edges)
        let ?f = "\<lambda>edge. dfs m g (edge_to edge) (p @ [n]) (Suc d)"
        let ?R = "\<lambda>e. raises_below m g (edge_to e, p @ [n], Suc d)"
        let ?C = "\<lambda>e. cycles_below m g (edge_to e, p @ [n], Suc d)"
        have IH: "(?R x \<longrightarrow> ?f x s = Inl forEach_error)
              \<and> (\<not> ?R x \<longrightarrow> (\<exists>s'. ?f x s = Inr s'
                      \<and> set (fst s') = set (fst s) \<union> ?C x \<and> snd s' \<subseteq> snd s))"
          if "x \<in> set edges" for x s
          using "1.IH" [OF _ _ refl refl Some, of x s] deep False by auto
        have raise: "?f x s = Inl forEach_error" if "x \<in> set edges" "?R x" for x s
          using IH [OF that(1)] that(2) by blast
        have return: "\<exists>s'. ?f x s = Inr s' \<and> set (fst s') = set (fst s) \<union> ?C x \<and> snd s' \<subseteq> snd s"
          if "x \<in> set edges" "\<not> ?R x" for x s
          using IH [OF that(1)] that(2) by blast
        have fold1: "fold_err ?f edges s = Inl forEach_error"
          if "\<exists>e \<in> set edges. ?R e" for s
          by (rule fold_err_search(1) [where R = ?R and C = ?C and f = ?f, OF _ _ that])
             (rule raise, assumption+, rule return, assumption+)
        have fold2: "\<exists>s'. fold_err ?f edges s = Inr s'
                       \<and> set (fst s') = set (fst s) \<union> (\<Union>e \<in> set edges. ?C e)
                       \<and> snd s' \<subseteq> snd s"
          if "\<not> (\<exists>e \<in> set edges. ?R e)" for s
          by (rule fold_err_search(2) [where R = ?R and C = ?C and f = ?f, OF _ _ that])
             (rule raise, assumption+, rule return, assumption+)
        have unfold: "dfs m g n p d st =
            ebind (fold_err ?f edges (fst st, insert n (snd st)))
              (\<lambda>st2. Inr (fst st2, snd st2 - {n}))"
          using False deep Some by (subst dfs.simps) (simp add: Let_def)
        show ?thesis
        proof (cases "\<exists>e \<in> set edges. ?R e")
          case True
          from fold1 [OF True] have "fold_err ?f edges (fst st, insert n (snd st)) = Inl forEach_error"
            by simp
          with True ex Some show ?thesis unfolding unfold by (simp add: ebind_def)
        next
          case none: False
          from fold2 [OF none, of "(fst st, insert n (snd st))"]
          obtain s' where "fold_err ?f edges (fst st, insert n (snd st)) = Inr s'"
            "set (fst s') = set (fst st) \<union> (\<Union>e \<in> set edges. ?C e)"
            "snd s' \<subseteq> insert n (snd st)"
            by auto
          with none ex Some False deep show ?thesis
            unfolding unfold by (auto simp: ebind_def cycles_below_explore)
        qed
      qed
    qed
  qed
qed

lemma roots_fold:
  assumes "snd s = {}"
  shows "(\<exists>r \<in> set ks. raises_below m g (r, [], 0)) \<Longrightarrow>
           fold_err (\<lambda>node st. if node \<notin> snd st then dfs m g node [] 0 st else Inr st) ks s
             = Inl forEach_error"
    and "\<not> (\<exists>r \<in> set ks. raises_below m g (r, [], 0)) \<Longrightarrow>
           \<exists>s'. fold_err (\<lambda>node st. if node \<notin> snd st then dfs m g node [] 0 st else Inr st) ks s
                  = Inr s'
                \<and> set (fst s') = set (fst s) \<union> (\<Union>r \<in> set ks. cycles_below m g (r, [], 0))"
  using assms
proof (induction ks arbitrary: s)
  case Nil
  {
    case 1
    then show ?case by simp
  next
    case 2
    show ?case by simp
  }
next
  case (Cons k ks)
  {
    case 1
    show ?case
    proof (cases "raises_below m g (k, [], 0)")
      case True
      with dfs_result [of m g k "[]" 0 s] 1(2) show ?thesis by simp
    next
      case False
      with dfs_result [of m g k "[]" 0 s] obtain s1 where s1: "dfs m g k [] 0 s = Inr s1"
        and v: "snd s1 \<subseteq> snd s" by auto
      from v 1(2) have e: "snd s1 = {}" by simp
      from False 1(1) have "\<exists>r \<in> set ks. raises_below m g (r, [], 0)" by auto
      from Cons.IH(1) [OF this e] s1 1(2) show ?thesis by simp
    qed
  next
    case 2
    from 2(1) have nk: "\<not> raises_below m g (k, [], 0)"
      and nks: "\<not> (\<exists>r \<in> set ks. raises_below m g (r, [], 0))" by auto
    from nk dfs_result [of m g k "[]" 0 s] obtain s1 where s1: "dfs m g k [] 0 s = Inr s1"
      and p: "set (fst s1) = set (fst s) \<union> cycles_below m g (k, [], 0)"
      and v: "snd s1 \<subseteq> snd s" by auto
    from v 2(2) have e: "snd s1 = {}" by simp
    from Cons.IH(2) [OF nks e] obtain s' where
      "fold_err (\<lambda>node st. if node \<notin> snd st then dfs m g node [] 0 st else Inr st) ks s1 = Inr s'"
      "set (fst s') = set (fst s1) \<union> (\<Union>r \<in> set ks. cycles_below m g (r, [], 0))"
      by auto
    with s1 p 2(2) show ?case by auto
  }
qed

lemma findReentrancyPaths_result:
  shows "(\<exists>r \<in> set (obj_keys g). raises_below (maxReentrancyDepth (thresholds this)) g (r, [], 0))
         \<Longrightarrow> findReentrancyPaths this g = Inl forEach_error"
    and "\<not> (\<exists>r \<in> set (obj_keys g). raises_below (maxReentrancyDepth (thresholds this)) g (r, [], 0))
         \<Longrightarrow> \<exists>paths. findReentrancyPaths this g = Inr paths
             \<and> set paths = (\<Union>r \<in> set (obj_keys g).
                               cycles_below (maxReentrancyDepth (thresholds this)) g (r, [], 0))"
proof -
  let ?m = "maxReentrancyDepth (thresholds this)"
  show "findReentrancyPaths this g = Inl forEach_error"
    if "\<exists>r \<in> set (obj_keys g). raises_below ?m g (r, [], 0)"
    unfolding findReentrancyPaths_def
    using roots_fold(1) [of "([], {})" "obj_keys g" ?m g] that
    by (simp add: ebind_def)
  show "\<exists>paths. findReentrancyPaths this g = Inr paths
             \<and> set paths = (\<Union>r \<in> set (obj_keys g). cycles_below ?m g (r, [], 0))"
    if "\<not> (\<exists>r \<in> set (obj_keys g). raises_below ?m g (r, [], 0))"
  proof -
    from roots_fold(2) [of "([], {})" "obj_keys g" ?m g] that
    obtain s' where
      "fold_err (\<lambda>node st. if node \<notin> snd st then dfs ?m g node [] 0 st else Inr st)
         (obj_keys g) ([], {}) = Inr s'"
      "set (fst s') = (\<Union>r \<in> set (obj_keys g). cycles_below ?m g (r, [], 0))"
      by auto
    then show ?thesis
      unfolding findReentrancyPaths_def by (simp add: ebind_def)
  qed
qed

lemma search_position_invariant:
  "(search_step m g)\<^sup>*\<^sup>* (r, [], 0) pos \<Longrightarrow>
     snd (snd pos) = length (fst (snd pos)) \<and> distinct (fst (snd pos))"
proof (induction rule: rtranclp_induct)
  case base
  show ?case by simp
next
  case (step y z)
  from step(2) step(3) show ?case
    by (auto elim!: search_step.cases)
qed

lemma recorded_cycle_shape:
  assumes "node \<in> set path" "distinct path"
  shows "2 \<le> length (recorded_cycle node path)"
    and "length (recorded_cycle node path) \<le> length path + 1"
    and "hd (recorded_cycle node path) = node"
    and "last (recorded_cycle node path) = node"
    and "distinct (butlast (recorded_cycle node path))"
proof -
  from assms(1) have ne: "dropWhile (\<lambda>x. x \<noteq> node) path \<noteq> []"
    by (simp add: dropWhile_eq_Nil_conv)
  then show "2 \<le> length (recorded_cycle node path)"
    by (cases "dropWhile (\<lambda>x. x \<noteq> node) path") (auto simp: recorded_cycle_def)
  show "length (recorded_cycle node path) \<le> length path + 1"
    by (simp add: recorded_cycle_def length_dropWhile_le)
  from ne have "hd (dropWhile (\<lambda>x. x \<noteq> node) path) = node"
    using hd_dropWhile [of "\<lambda>x. x \<noteq> node" path] by simp
  with ne show "hd (recorded_cycle node path) = node"
    by (simp add: recorded_cycle_def)
  show "last (recorded_cycle node path) = node"
    by (simp add: recorded_cycle_def)
  from assms(2) show "distinct (butlast (recorded_cycle node path))"
    by (simp add: recorded_cycle_def butlast_append distinct_dropWhile)
qed

lemma maxReentrancyDepth_new [simp]:
  "maxReentrancyDepth (thresholds new_DetectionService) = 3"
  by (simp add: new_DetectionService_def)

text \<open>
  Claim C5. The path finder returns unless the depth-first search, started from some key of
  the graph, reaches within the depth cap a node that is not on the current path, is no own
  key of the graph and is named like a member of \<^verbatim>\<open>Object.prototype\<close>; there the lookup
  \<^verbatim>\<open>callGraph[node]\<close> finds the inherited member and \<^verbatim>\<open>forEach\<close> raises a \<^verbatim>\<open>TypeError\<close>, the
  only error of the finder. When the finder returns, the cycles it returns are exactly the
  cycles of the search positions that the search reaches from some key of the graph, within
  the depth cap, at a node already on the current path; each is the suffix of the path from
  the first occurrence of that node, followed by the node. At every position the depth is
  the number of edges walked (the length of the path) and the path has no repetition, so a
  recorded cycle closes after at most \<open>maxReentrancyDepth\<close> edges from its root (3 for the
  service as constructed): it has at most \<open>maxReentrancyDepth + 1\<close> entries, starts and
  ends with the revisited node and repeats no other node.
\<close>

theorem reentrancy_paths_characterised:
  fixes this :: DetectionService and g :: call_graph
  defines "m \<equiv> maxReentrancyDepth (thresholds this)"
  shows "(returns (findReentrancyPaths this g) \<longleftrightarrow>
            \<not> (\<exists>root_node node path depth.
                  root_node \<in> set (obj_keys g)
                  \<and> search_reaches m g root_node (node, path, depth)
                  \<and> depth \<le> m \<and> node \<notin> set path
                  \<and> obj_get g node = None \<and> inherited_name node))
       \<and> (\<forall>e. findReentrancyPaths this g = Inl e
             \<longrightarrow> e = TypeError ''callGraph[node].forEach is not a function'')
       \<and> (\<forall>paths. findReentrancyPaths this g = Inr paths \<longrightarrow>
             set paths =
               {recorded_cycle node path | root_node node path depth.
                  root_node \<in> set (obj_keys g)
                  \<and> search_reaches m g root_node (node, path, depth)
                  \<and> depth \<le> m \<and> node \<in> set path}
             \<and> (\<forall>c \<in> set paths.
                   2 \<le> length c \<and> length c \<le> m + 1 \<and> hd c = last c \<and> distinct (butlast c)))
       \<and> (\<forall>root_node node path depth.
             search_reaches m g root_node (node, path, depth)
             \<longrightarrow> depth = length path \<and> distinct path)
       \<and> maxReentrancyDepth (thresholds new_DetectionService) = 3"
proof -
  let ?raises = "\<exists>r \<in> set (obj_keys g). raises_below m g (r, [], 0)"
  have raises: "?raises \<longleftrightarrow>
     (\<exists>root_node node path depth.
        root_node \<in> set (obj_keys g)
        \<and> search_reaches m g root_node (node, path, depth)
        \<and> depth \<le> m \<and> node \<notin> set path
        \<and> obj_get g node = None \<and> inherited_name node)"
    unfolding raises_below_def search_reaches_def by blast
  have cycles: "(\<Union>r \<in> set (obj_keys g). cycles_below m g (r, [], 0)) =
     {recorded_cycle node path | root_node node path depth.
        root_node \<in> set (obj_keys g)
        \<and> search_reaches m g root_node (node, path, depth)
        \<and> depth \<le> m \<and> node \<in> set path}"
    unfolding cycles_below_def search_reaches_def by blast
  have inv: "depth = length path" "distinct path"
    if "search_reaches m g root_node (node, path, depth)" for root_node node path depth
    using search_position_invariant [of m g root_node "(node, path, depth)"] that
    unfolding search_reaches_def by simp_all
  have shape: "2 \<le> length c \<and> length c \<le> m + 1 \<and> hd c = last c \<and> distinct (butlast c)"
    if "c \<in> (\<Union>r \<in> set (obj_keys g). cycles_below m g (r, [], 0))" for c
  proof -
    from that cycles obtain root_node node path depth where
      c: "c = recorded_cycle node path" and
      r: "search_reaches m g root_node (node, path, depth)" and
      d: "depth \<le> m" and n: "node \<in> set path"
      by blast
    from inv [OF r] have l: "depth = length path" and dist: "distinct path" by simp_all
    from recorded_cycle_shape [OF n dist] l d show ?thesis unfolding c by simp
  qed
  show ?thesis
  proof (cases ?raises)
    case True
    from findReentrancyPaths_result(1) [of g this] True
    have "findReentrancyPaths this g = Inl forEach_error" by (simp add: m_def)
    with True raises inv show ?thesis
      by (simp add: returns_def forEach_error_def)
  next
    case False
    from findReentrancyPaths_result(2) [of g this] False
    obtain paths where p: "findReentrancyPaths this g = Inr paths"
      and s: "set paths = (\<Union>r \<in> set (obj_keys g). cycles_below m g (r, [], 0))"
      by (auto simp: m_def)
    have a: "returns (findReentrancyPaths this g) \<longleftrightarrow>
            \<not> (\<exists>root_node node path depth.
                  root_node \<in> set (obj_keys g)
                  \<and> search_reaches m g root_node (node, path, depth)
                  \<and> depth \<le> m \<and> node \<notin> set path
                  \<and> obj_get g node = None \<and> inherited_name node)"
      using False raises p by (simp add: returns_def)
    have b: "\<forall>e. findReentrancyPaths this g = Inl e
             \<longrightarrow> e = TypeError ''callGraph[node].forEach is not a function''"
      using p by simp
    have c: "\<forall>paths. findReentrancyPaths this g = Inr paths \<longrightarrow>
             set paths =
               {recorded_cycle node path | root_node node path depth.
                  root_node \<in> set (obj_keys g)
                  \<and> search_reaches m g root_node (node, path, depth)
                  \<and> depth \<le> m \<and> node \<in> set path}
             \<and> (\<forall>c \<in> set paths.
                   2 \<le> length c \<and> length c \<le> m + 1 \<and> hd c = last c \<and> distinct (butlast c))"
      using p s cycles shape by auto
    from a b c inv show ?thesis by simp
  qed
qed

theorem reentrancy_paths_characterised_witness:
  "''a'' \<in> set (obj_keys ring3)
   \<and> search_reaches 3 ring3 ''a'' (''a'', [''a'', ''b'', ''c''], 3)
   \<and> recorded_cycle ''a'' [''a'', ''b'', ''c''] = [''a'', ''b'', ''c'', ''a'']
   \<and> findReentrancyPaths new_DetectionService ring3
       = Inr [[''a'', ''b'', ''c'', ''a''], [''b'', ''c'', ''a'', ''b''], [''c'', ''a'', ''b'', ''c'']]
   \<and> [''a'', ''b'', ''c'', ''a'']
       \<in> {recorded_cycle node path | root_node node path depth.
            root_node \<in> set (obj_keys ring3)
            \<and> search_reaches 3 ring3 root_node (node, path, depth)
            \<and> depth \<le> 3 \<and> node \<in> set path}
   \<and> length [''a'', ''b'', ''c'', ''a''] \<le> 3 + 1
   \<and> findReentrancyPaths new_DetectionService ring4 = Inr []
   \<and> findReentrancyPaths new_DetectionService inherited_graph
       = Inl (TypeError ''callGraph[node].forEach is not a function'')
   \<and> \<not> returns (findReentrancyPaths new_DetectionService inherited_graph)
   \<and> (\<exists>root_node node path depth.
         root_node \<in> set (obj_keys inherited_graph)
         \<and> search_reaches 3 inherited_graph root_node (node, path, depth)
         \<and> depth \<le> 3 \<and> node \<notin> set path
         \<and> obj_get inherited_graph node = None \<and> inherited_name node)"
proof -
  have f3: "findReentrancyPaths new_DetectionService ring3
     = Inr [[''a'', ''b'', ''c'', ''a''], [''b'', ''c'', ''a'', ''b''], [''c'', ''a'', ''b'', ''c'']]"
    by code_simp
  have f4: "findReentrancyPaths new_DetectionService ring4 = Inr []"
    by code_simp
  have fi: "findReentrancyPaths new_DetectionService inherited_graph
       = Inl (TypeError ''callGraph[node].forEach is not a function'')"
    by code_simp
  have k: "''a'' \<in> set (obj_keys ring3)" by code_simp
  have rc: "recorded_cycle ''a'' [''a'', ''b'', ''c''] = [''a'', ''b'', ''c'', ''a'']"
    by code_simp
  have a: "search_step 3 ring3 (''a'', [], 0) (''b'', [''a''], 1)"
    using search_step.descend [of 0 3 "''a''" "[]" ring3 "[edge ''b'' 0]" "edge ''b'' 0"]
    by (simp add: ring3_def obj_get_def edge_def eval_nat_numeral)
  have b: "search_step 3 ring3 (''b'', [''a''], 1) (''c'', [''a'', ''b''], 2)"
    using search_step.descend [of 1 3 "''b''" "[''a'']" ring3 "[edge ''c'' 1]" "edge ''c'' 1"]
    by (simp add: ring3_def obj_get_def edge_def eval_nat_numeral)
  have c: "search_step 3 ring3 (''c'', [''a'', ''b''], 2) (''a'', [''a'', ''b'', ''c''], 3)"
    using search_step.descend [of 2 3 "''c''" "[''a'', ''b'']" ring3 "[edge ''a'' 2]" "edge ''a'' 2"]
    by (simp add: ring3_def obj_get_def edge_def eval_nat_numeral)
  from a b c have r: "search_reaches 3 ring3 ''a'' (''a'', [''a'', ''b'', ''c''], 3)"
    unfolding search_reaches_def by (blast intro: rtranclp.rtrancl_into_rtrancl)
  have m3: "maxReentrancyDepth (thresholds new_DetectionService) = 3"
    by (simp add: new_DetectionService_def)
  note t3 = reentrancy_paths_characterised [of new_DetectionService ring3, unfolded m3]
  note c3 = t3 [THEN conjunct2, THEN conjunct2, THEN conjunct1, rule_format, OF f3]
  have mem: "[''a'', ''b'', ''c'', ''a''] \<in> set [[''a'', ''b'', ''c'', ''a''],
               [''b'', ''c'', ''a'', ''b''], [''c'', ''a'', ''b'', ''c'']]"
    by simp
  from mem c3 [THEN conjunct1] have cyc: "[''a'', ''b'', ''c'', ''a'']
       \<in> {recorded_cycle node path | root_node node path depth.
            root_node \<in> set (obj_keys ring3)
            \<and> search_reaches 3 ring3 root_node (node, path, depth)
            \<and> depth \<le> 3 \<and> node \<in> set path}"
    by (simp only:)
  have len: "length [''a'', ''b'', ''c'', ''a''] \<le> 3 + 1"
    using c3 [THEN conjunct2, rule_format, OF mem] by (simp only:)
  note ti = reentrancy_paths_characterised [of new_DetectionService inherited_graph, unfolded m3]
  from fi have nr: "\<not> returns (findReentrancyPaths new_DetectionService inherited_graph)"
    by (simp add: returns_def)
  from ti [THEN conjunct1] nr
  have ex: "\<exists>root_node node path depth.
         root_node \<in> set (obj_keys inherited_graph)
         \<and> search_reaches 3 inherited_graph root_node (node, path, depth)
         \<and> depth \<le> 3 \<and> node \<notin> set path
         \<and> obj_get inherited_graph node = None \<and> inherited_name node"
    by (simp only: simp_thms)
  from f3 f4 fi k r rc cyc len nr ex show ?thesis by (intro conjI)
qed

subsection \<open>Dictionary objects\<close>

lemma obj_has_iff: "obj_has obj k \<longleftrightarrow> obj_get obj k \<noteq> None"
  by (simp add: obj_has_def obj_get_def map_of_eq_None_iff)

lemma map_of_update_all:
  "map_of (map (\<lambda>p. if fst p = k then (k, v) else p) obj) k'
     = (if k' = k then (if k \<in> fst ` set obj then Some v else None) else map_of obj k')"
  by (induction obj) force+

lemma map_of_insert_mid_other:
  "k' \<noteq> k \<Longrightarrow> map_of (xs @ (k, v) # ys) k' = map_of (xs @ ys) k'"
  by (induction xs) auto

lemma map_of_insert_mid_same:
  "k \<notin> fst ` set xs \<Longrightarrow> map_of (xs @ (k, v) # ys) k = Some v"
  by (induction xs) auto

lemma obj_get_obj_set:
  "obj_get (obj_set obj k v) k' = (if k' = k then Some v else obj_get obj k')"
proof (cases "obj_has obj k")
  case True
  then show ?thesis
    by (simp add: obj_set_def obj_get_def map_of_update_all obj_has_def)
next
  case False
  then have notin: "k \<notin> fst ` set obj" by (simp add: obj_has_def)
  then have notin_tw: "k \<notin> fst ` set (takeWhile P obj)" for P
    using set_takeWhileD [of _ P obj] by auto
  have mid: "map_of (takeWhile P obj @ (k, v) # dropWhile P obj) q
               = (if q = k then Some v else map_of obj q)" for P q
    using map_of_insert_mid_other [of q k "takeWhile P obj" v "dropWhile P obj"]
      map_of_insert_mid_same [OF notin_tw, of P v "dropWhile P obj"]
    by simp
  have last: "map_of (obj @ [(k, v)]) q = (if q = k then Some v else map_of obj q)" for q
    using map_of_insert_mid_other [of q k obj v "[]"]
      map_of_insert_mid_same [OF notin, of v "[]"]
    by simp
  from False show ?thesis
    by (simp add: obj_set_def obj_get_def mid last del: map_of_append)
qed

lemma obj_get_keys: "obj_get obj k \<noteq> None \<longleftrightarrow> k \<in> set (obj_keys obj)"
  using map_of_eq_None_iff [of obj k] by (simp add: obj_get_def obj_keys_def)

lemma obj_keys_obj_set: "set (obj_keys (obj_set obj k v)) = insert k (set (obj_keys obj))"
proof (rule set_eqI)
  fix x
  have "x \<in> set (obj_keys (obj_set obj k v)) \<longleftrightarrow> obj_get (obj_set obj k v) x \<noteq> None"
    using obj_get_keys [of "obj_set obj k v" x] by simp
  also have "\<dots> \<longleftrightarrow> x = k \<or> obj_get obj x \<noteq> None"
    by (simp add: obj_get_obj_set)
  also have "\<dots> \<longleftrightarrow> x \<in> insert k (set (obj_keys obj))"
    using obj_get_keys [of obj x] by simp
  finally show "x \<in> set (obj_keys (obj_set obj k v)) \<longleftrightarrow> x \<in> insert k (set (obj_keys obj))" .
qed

subsection \<open>Reentrancy detection\<close>

text \<open>
  Claim C4 on the code. The transaction is not suppressed by the legitimacy override and
  carries no additional data; its calls are a call from \<open>A\<close> to \<open>B\<close>, a call from \<open>B\<close> to
  \<open>A\<close> with a value of 1000 and another call from \<open>A\<close> to \<open>B\<close>. When the value of the
  first call is the string \<^verbatim>\<open>'abc'\<close>, the second pass of \<^verbatim>\<open>buildCallGraph\<close> hands it to
  \<^verbatim>\<open>BigNumber.from\<close>, which raises: the reentrancy evaluator returns no finding and the
  engine no report. With the value \<^verbatim>\<open>'5'\<close> in its place the evaluator fires and its reentrancy
  paths contain the cycle from \<open>A\<close> through \<open>B\<close> back to \<open>A\<close>.
\<close>

theorem reentrancy_cycle_unparseable_value_raises:
  "isLegitimateOperation new_DetectionService (reentrancy_transaction (Some ''abc''))
       (tx_additionalData (reentrancy_transaction (Some ''abc''))) = Inr False
   \<and> tx_additionalData (reentrancy_transaction (Some ''abc'')) = None
   \<and> buildCallGraph (calls_or_empty (reentrancy_transaction (Some ''abc'')))
       = Inl (InvalidBigNumberString ''abc'')
   \<and> detectReentrancy new_DetectionService (reentrancy_transaction (Some ''abc''))
       = Inl (InvalidBigNumberString ''abc'')
   \<and> detectThreats new_DetectionService (reentrancy_transaction (Some ''abc''))
       = Inl (InvalidBigNumberString ''abc'')
   \<and> (case detectReentrancy new_DetectionService (reentrancy_transaction (Some ''5'')) of
         Inl e \<Rightarrow> False
       | Inr r \<Rightarrow>
           detected r
           \<and> (case obj_get (details r) ''reentrancyPaths'' of
                 Some (JArr paths) \<Rightarrow>
                   JArr [JStr attacker, JStr victim, JStr attacker] \<in> set paths
               | _ \<Rightarrow> False))"
  by code_simp

subsection \<open>The invariant of the report\<close>

lemma obj_set_nonempty: "obj_set obj k v \<noteq> []"
  using obj_keys_obj_set [of obj k v] by (auto simp: obj_keys_def)

lemma assign_details_kind:
  assumes "type \<in> set rule_kinds"
  shows "assign_details type d dd \<noteq> []"
    and "set (obj_keys (assign_details type d dd)) = insert type (set (obj_keys dd))"
  using assms
  by (auto simp: assign_details_def rule_kinds_def obj_set_nonempty obj_keys_obj_set)

lemma collect_result_invariant:
  assumes "fst entry \<in> set rule_kinds" "report_invariant (fst st) (snd (snd st))"
  shows "report_invariant (fst (collect_result entry st)) (snd (snd (collect_result entry st)))"
  using assms assign_details_kind [OF assms(1)]
  by (cases entry; cases st) (auto simp: collect_result_def report_invariant_def)

lemma fold_collect_invariant:
  assumes "\<forall>entry \<in> set entries. fst entry \<in> set rule_kinds"
    and "report_invariant (fst st) (snd (snd st))"
  shows "report_invariant (fst (fold collect_result entries st))
           (snd (snd (fold collect_result entries st)))"
  using assms
proof (induction entries arbitrary: st)
  case Nil
  then show ?case by simp
next
  case (Cons e es)
  from Cons.prems have "report_invariant (fst (collect_result e st)) (snd (snd (collect_result e st)))"
    by (intro collect_result_invariant) simp_all
  with Cons show ?case by simp
qed

lemma aggregate_invariant:
  assumes "\<forall>entry \<in> set entries. fst entry \<in> set rule_kinds"
    and "detectionDetails response = []" and "\<not> resp_detected response"
  shows "report_invariant (resp_detected (aggregate response entries))
           (detectionDetails (aggregate response entries))"
proof -
  have "report_invariant False []" by (simp add: report_invariant_def obj_keys_def)
  from fold_collect_invariant [OF assms(1), of "(False, [], [])"] this
  show ?thesis
    using assms(3) unfolding aggregate_def Let_def assms(2)
    by (auto simp: report_invariant_def split: prod.splits)
qed

lemma ebind_Inr_iff: "ebind m f = Inr r \<longleftrightarrow> (\<exists>v. m = Inr v \<and> f v = Inr r)"
  by (cases m) (simp_all add: ebind_def)

lemma detectThreats_invariant:
  assumes "detectThreats this tx = Inr r"
  shows "report_invariant (resp_detected r) (detectionDetails r)"
  using assms
  unfolding detectThreats_def Let_def ebind_Inr_iff
  by (auto intro!: aggregate_invariant simp: rule_kinds_def)

lemma clear_result_invariant:
  "report_invariant (resp_detected (clear_result r)) (detectionDetails (clear_result r))"
  by (simp add: clear_result_def report_invariant_def obj_keys_def)

lemma fixture_legitimate_invariant:
  assumes "report_invariant (resp_detected r) (detectionDetails r)"
  shows "report_invariant (resp_detected (fixture_legitimate request r))
           (detectionDetails (fixture_legitimate request r))"
  using assms clear_result_invariant
  by (simp add: fixture_legitimate_def Let_def)

lemma ensure_kind_invariant:
  assumes "report_invariant d dd" "k \<in> set rule_kinds"
  shows "report_invariant True (if obj_get dd k = None then obj_set dd k v else dd)"
proof (cases "obj_get dd k")
  case None
  with assms show ?thesis
    by (simp add: report_invariant_def obj_set_nonempty obj_keys_obj_set)
next
  case (Some a)
  then have "dd \<noteq> []" by (auto simp: obj_get_def)
  with Some assms show ?thesis by (simp add: report_invariant_def)
qed

lemma fixture_reentrancy_invariant:
  assumes "report_invariant (resp_detected r) (detectionDetails r)"
  shows "report_invariant (resp_detected (fixture_reentrancy request r))
           (detectionDetails (fixture_reentrancy request r))"
proof -
  have k: "''reentrancy'' \<in> set rule_kinds" by (simp add: rule_kinds_def)
  note e = ensure_kind_invariant [OF assms k]
  show ?thesis
    using assms e
    by (auto simp: fixture_reentrancy_def Let_def split: option.splits)
qed

lemma fixture_front_running_invariant:
  assumes "report_invariant (resp_detected r) (detectionDetails r)"
  shows "report_invariant (resp_detected (fixture_front_running request r))
           (detectionDetails (fixture_front_running request r))"
proof -
  have k: "''frontRunning'' \<in> set rule_kinds" by (simp add: rule_kinds_def)
  note e = ensure_kind_invariant [OF assms k]
  show ?thesis
    using assms e
    by (auto simp: fixture_front_running_def Let_def split: option.splits)
qed

lemma detect_invariant:
  assumes "detect request = Inr r"
  shows "report_invariant (resp_detected r) (detectionDetails r)"
proof -
  from assms obtain r0 where r0: "detectThreats new_DetectionService (request_transaction request) = Inr r0"
    and r: "r = (let t = fixture_front_running request
                          (fixture_reentrancy request (fixture_legitimate request r0))
                 in if req_detectorName request = Some ''false-positive-detector''
                    then clear_result t else t)"
    unfolding detect_def Let_def ebind_Inr_iff by auto
  from detectThreats_invariant [OF r0]
  have "report_invariant
          (resp_detected (fixture_front_running request
                          (fixture_reentrancy request (fixture_legitimate request r0))))
          (detectionDetails (fixture_front_running request
                          (fixture_reentrancy request (fixture_legitimate request r0))))"
    by (intro fixture_front_running_invariant fixture_reentrancy_invariant
          fixture_legitimate_invariant)
  with clear_result_invariant show ?thesis
    unfolding r Let_def by simp
qed

text \<open>
  Claim C1. Whenever \<^verbatim>\<open>detectThreats\<close> returns a report, its \<^verbatim>\<open>detected\<close> flag is set exactly
  when the per-kind mapping \<^verbatim>\<open>detectionDetails\<close> has at least one entry, and every key of
  the mapping is one of the eleven rule kinds. The same holds for the report returned by
  the static entry point \<^verbatim>\<open>detect\<close>, which rewrites the report of \<^verbatim>\<open>detectThreats\<close>.
\<close>

theorem detection_report_invariant:
  "(detectThreats this transaction = Inr r \<longrightarrow>
      (resp_detected r \<longleftrightarrow> detectionDetails r \<noteq> [])
      \<and> set (obj_keys (detectionDetails r)) \<subseteq> set rule_kinds)
   \<and> (detect request = Inr r' \<longrightarrow>
      (resp_detected r' \<longleftrightarrow> detectionDetails r' \<noteq> [])
      \<and> set (obj_keys (detectionDetails r')) \<subseteq> set rule_kinds)
   \<and> rule_kinds =
       [''spoofing'', ''phishing'', ''poisoning'', ''reentrancy'', ''frontRunning'',
        ''abnormalValue'', ''flashLoan'', ''honeypot'', ''governanceAttack'',
        ''oracleManipulation'', ''crossChainAttack'']"
  using detectThreats_invariant [of this transaction r] detect_invariant [of request r']
  by (simp add: report_invariant_def rule_kinds_def)

theorem detection_report_invariant_witness:
  "(\<exists>r. detectThreats new_DetectionService
           (base_transaction ((base_trace ''0xbad0000000000000000000000000000000000bad'' victim)
              \<lparr> trace_gas := Some ''2000000'', trace_value := Some ''100000000000000000000'',
                trace_input := Some ''0x47e7ef24'' \<rparr>)) = Inr r
        \<and> resp_detected r
        \<and> obj_keys (detectionDetails r)
            = [''spoofing'', ''poisoning'', ''frontRunning'', ''abnormalValue'', ''crossChainAttack''])
   \<and> (\<exists>r. detectThreats new_DetectionService
           (base_transaction (base_trace ''0x1234567890123456789012345678901234567890''
              ''0xabcdefabcdefabcdefabcdefabcdefabcdefabcd'')) = Inr r
        \<and> \<not> resp_detected r \<and> detectionDetails r = [])"
proof -
  let ?t1 = "base_transaction ((base_trace ''0xbad0000000000000000000000000000000000bad'' victim)
              \<lparr> trace_gas := Some ''2000000'', trace_value := Some ''100000000000000000000'',
                trace_input := Some ''0x47e7ef24'' \<rparr>)"
  let ?t2 = "base_transaction (base_trace ''0x1234567890123456789012345678901234567890''
              ''0xabcdefabcdefabcdefabcdefabcdefabcdefabcd'')"
  have e1: "map_sum id (\<lambda>r. obj_keys (detectionDetails r)) (detectThreats new_DetectionService ?t1)
              = Inr [''spoofing'', ''poisoning'', ''frontRunning'', ''abnormalValue'', ''crossChainAttack'']"
    by code_simp
  have e2: "map_sum id detectionDetails (detectThreats new_DetectionService ?t2) = Inr []"
    by code_simp
  from e1 obtain r1 where r1: "detectThreats new_DetectionService ?t1 = Inr r1"
    and k1: "obj_keys (detectionDetails r1)
               = [''spoofing'', ''poisoning'', ''frontRunning'', ''abnormalValue'', ''crossChainAttack'']"
    by (cases "detectThreats new_DetectionService ?t1") auto
  from e2 obtain r2 where r2: "detectThreats new_DetectionService ?t2 = Inr r2"
    and k2: "detectionDetails r2 = []"
    by (cases "detectThreats new_DetectionService ?t2") auto
  from detection_report_invariant [of new_DetectionService ?t1 r1] r1 k1
  have d1: "resp_detected r1" by (auto simp: obj_keys_def)
  from detection_report_invariant [of new_DetectionService ?t2 r2] r2 k2
  have d2: "\<not> resp_detected r2" by simp
  from r1 k1 d1 r2 k2 d2 show ?thesis by blast
qed

subsection \<open>The false-positive override of the entry point\<close>

lemma false_positive_detector_clears_returned_report:
  assumes "req_detectorName request = Some ''false-positive-detector''"
    and "detect request = Inr r"
  shows "resp_detected r = False" and "resp_message r = ''No threats detected''"
    and "detectionDetails r = []"
  using assms unfolding detect_def Let_def ebind_Inr_iff
  by (auto simp: clear_result_def)

text \<open>
  Claim C10 on the code. \<^verbatim>\<open>detect\<close> runs the engine before it looks at the detector name.
  For the request of the false-positive detector whose trace carries the value \<^verbatim>\<open>'abc'\<close>,
  the abnormal-value evaluator hands the value to \<^verbatim>\<open>BigNumber.from\<close>, which raises, and
  \<^verbatim>\<open>detect\<close> returns no report. For the same request with a value of 500 ETH, \<^verbatim>\<open>detect\<close>
  returns the cleared report.
\<close>

theorem false_positive_detector_unparseable_value_raises:
  "req_detectorName fp_unparseable_request = Some ''false-positive-detector''
   \<and> trace_value (req_trace fp_unparseable_request) = Some ''abc''
   \<and> detectThreats new_DetectionService (request_transaction fp_unparseable_request)
       = Inl (InvalidBigNumberString ''abc'')
   \<and> detect fp_unparseable_request = Inl (InvalidBigNumberString ''abc'')
   \<and> req_detectorName fp_request = Some ''false-positive-detector''
   \<and> detect fp_request
       = Inr \<lparr> requestId = ''test-id'', resp_chainId = Some 1,
               resp_protocolAddress = ''0x1234567890123456789012345678901234567890'',
               resp_protocolName = ''test-protocol'',
               resp_message = ''No threats detected'', resp_detected = False,
               detectionDetails = [] \<rparr>"
  by code_simp

subsection \<open>Values that do not parse\<close>

text \<open>
  Claim C8 on the code: a value string that does not parse makes \<^verbatim>\<open>detectThreats\<close> raise
  the argument error of \<^verbatim>\<open>BigNumber.from\<close> instead of returning a report in which the
  abnormal-value rule does not fire; a gas string that does not parse is tolerated, and
  the front-running rule does not fire. A \<^verbatim>\<open>pre\<close> snapshot with a storage for an address
  that \<^verbatim>\<open>post\<close> lacks makes the oracle evaluator raise a type error.
\<close>

theorem unparseable_value_raises:
  "detectAbnormalValue new_DetectionService
      (base_transaction ((base_trace attacker victim) \<lparr> trace_value := Some ''abc'' \<rparr>))
     = Inl (InvalidBigNumberString ''abc'')
   \<and> detectThreats new_DetectionService
      (base_transaction ((base_trace attacker victim) \<lparr> trace_value := Some ''abc'' \<rparr>))
     = Inl (InvalidBigNumberString ''abc'')
   \<and> detectFrontRunning new_DetectionService
      (base_transaction ((base_trace attacker victim) \<lparr> trace_gas := Some ''xyz'' \<rparr>))
     = Inr (empty_result (Some ''front_running''))
   \<and> detectThreats new_DetectionService
      (base_transaction ((base_trace attacker victim)
         \<lparr> trace_pre := Some [(victim, [(''storage'', FObject [(''0x0'', ''0x1'')])])],
           trace_post := Some [] \<rparr>))
     = Inl (TypeError ''Cannot read properties of undefined (reading 'storage')'')"
  by code_simp

subsection \<open>The flash-loan repayment override\<close>













end
